theory Spec2Isabelle
  imports Main "HOL-Library.List_Lexorder" "HOL-Library.Char_ord" "HOL-Library.AList"
begin

section \<open>Python values\<close>

text \<open>
  Course metadata is JSON held in Python objects: \<open>None\<close>, booleans, integers, strings,
  lists and dicts with string keys. A dict is an association list in insertion order whose
  keys are distinct; lookup is \<open>map_of\<close>. Floats do not occur in the fields read here and
  are left out. Strings are byte strings; the code only compares, lowercases and
  concatenates them.
\<close>

datatype json =
    JNull
  | JBool bool
  | JInt int
  | JStr string
  | JList "json list"
  | JDict "(string \<times> json) list"

text \<open>The exceptions the operations below can raise. \<open>IndexError\<close> is caught where it arises.\<close>

datatype py_error = AttributeError | TypeError

definition err_bind :: "'e + 'a \<Rightarrow> ('a \<Rightarrow> 'e + 'b) \<Rightarrow> 'e + 'b" where
  "err_bind m f = (case m of Inl e \<Rightarrow> Inl e | Inr v \<Rightarrow> f v)"

text \<open>\<open>bool(x)\<close>: the truth value Python gives an object in \<open>if\<close>, \<open>not\<close> and \<open>or\<close>.\<close>

fun truthy :: "json \<Rightarrow> bool" where
  "truthy JNull = False"
| "truthy (JBool b) = b"
| "truthy (JInt i) = (i \<noteq> 0)"
| "truthy (JStr s) = (s \<noteq> [])"
| "truthy (JList xs) = (xs \<noteq> [])"
| "truthy (JDict d) = (d \<noteq> [])"

text \<open>\<open>a or b\<close>.\<close>

definition py_or :: "json \<Rightarrow> json \<Rightarrow> json" where
  "py_or a b = (if truthy a then a else b)"

text \<open>\<open>a == b\<close>: \<open>True == 1\<close> and \<open>False == 0\<close> hold, lists compare elementwise, dicts
  compare as mappings.\<close>

fun py_eq :: "json \<Rightarrow> json \<Rightarrow> bool" where
  "py_eq JNull JNull = True"
| "py_eq (JBool a) (JBool b) = (a = b)"
| "py_eq (JBool a) (JInt j) = ((if a then 1 else 0) = j)"
| "py_eq (JInt i) (JBool b) = (i = (if b then 1 else 0))"
| "py_eq (JInt i) (JInt j) = (i = j)"
| "py_eq (JStr s) (JStr t) = (s = t)"
| "py_eq (JList xs) (JList ys) = list_all2 py_eq xs ys"
| "py_eq (JDict a) (JDict b) =
     (length a = length b \<and>
      list_all (\<lambda>(k, v). case map_of b k of None \<Rightarrow> False | Some w \<Rightarrow> py_eq v w) a)"
| "py_eq _ _ = False"

text \<open>\<open>d.get(k, default)\<close> on a dict, and on any object: only dicts have \<open>get\<close>.\<close>

definition dict_get :: "(string \<times> json) list \<Rightarrow> string \<Rightarrow> json \<Rightarrow> json" where
  "dict_get d k dflt = (case map_of d k of None \<Rightarrow> dflt | Some v \<Rightarrow> v)"

fun py_get_default :: "json \<Rightarrow> string \<Rightarrow> json \<Rightarrow> py_error + json" where
  "py_get_default (JDict d) k dflt = Inr (dict_get d k dflt)"
| "py_get_default _ k dflt = Inl AttributeError"

definition py_get :: "json \<Rightarrow> string \<Rightarrow> py_error + json" where
  "py_get x k = py_get_default x k JNull"

text \<open>Iteration (\<open>for x in v\<close>): a list yields its elements, a string its characters, a dict
  its keys; anything else is not iterable.\<close>

fun py_iter :: "json \<Rightarrow> py_error + json list" where
  "py_iter (JList xs) = Inr xs"
| "py_iter (JStr s) = Inr (map (\<lambda>c. JStr [c]) s)"
| "py_iter (JDict d) = Inr (map (\<lambda>kv. JStr (fst kv)) d)"
| "py_iter _ = Inl TypeError"

text \<open>\<open>len(v)\<close>.\<close>

fun py_len :: "json \<Rightarrow> py_error + nat" where
  "py_len (JList xs) = Inr (length xs)"
| "py_len (JStr s) = Inr (length s)"
| "py_len (JDict d) = Inr (length d)"
| "py_len _ = Inl TypeError"

text \<open>Members of a Python \<open>set\<close> must be hashable: lists and dicts are not.\<close>

fun hashable :: "json \<Rightarrow> bool" where
  "hashable (JList xs) = False"
| "hashable (JDict d) = False"
| "hashable _ = True"

text \<open>\<open>s.add(x)\<close>. A set is kept as a list without \<open>==\<close>-equal members. Python fixes no
  iteration order for sets, so no statement below depends on the order of such a list.\<close>

definition set_add :: "json \<Rightarrow> json list \<Rightarrow> py_error + json list" where
  "set_add x s =
     (if \<not> hashable x then Inl TypeError
      else if list_ex (\<lambda>y. py_eq y x) s then Inr s
      else Inr (x # s))"

text \<open>\<open>s.lower()\<close> on ASCII letters; only strings have \<open>lower\<close>.\<close>

definition lower_char :: "char \<Rightarrow> char" where
  "lower_char c =
     (let n = (of_char c :: nat) in if 65 \<le> n \<and> n \<le> 90 then char_of (n + 32) else c)"

fun py_lower :: "json \<Rightarrow> py_error + string" where
  "py_lower (JStr s) = Inr (map lower_char s)"
| "py_lower _ = Inl AttributeError"

section \<open>Course records\<close>

text \<open>A \<open>ContentMetadata\<close> row: the attributes the indexing code reads.\<close>

record content_metadata =
  content_key :: string
  json_metadata :: json

text \<open>
  \<open>is_course_run_active\<close> is imported from \<open>enterprise_catalog.apps.api.v1.utils\<close>, a
  module that is not part of the sources at hand. Every function that calls it takes it as
  the parameter \<open>act\<close>, a total predicate on course runs.
\<close>

text \<open>
  Modelled from the spec: \<open>is_course_run_active\<close> is missing; the spec calls it a predicate
  over status, is_enrollable and is_marketable, and the tests treat a run as active when it
  is published, enrollable and marketable. \<open>published_run_active\<close> is that instance, used
  for concrete evaluations only.
\<close>

definition published_run_active :: "json \<Rightarrow> bool" where
  "published_run_active run =
     (case run of
        JDict d \<Rightarrow>
          (case py_lower (py_or (dict_get d ''status'' JNull) (JStr [])) of
             Inr s \<Rightarrow> s = ''published'' \<and> truthy (dict_get d ''is_enrollable'' JNull)
                       \<and> truthy (dict_get d ''is_marketable'' JNull)
           | Inl e \<Rightarrow> False)
      | _ \<Rightarrow> False)"

subsection \<open>\<open>_get_course_run_by_uuid\<close>\<close>

text \<open>The comprehension \<open>[run for run in runs if run.get('uuid') == course_run_uuid]\<close>: every
  run is visited, and a run without \<open>get\<close> raises.\<close>

fun runs_with_uuid :: "json \<Rightarrow> json list \<Rightarrow> py_error + json list" where
  "runs_with_uuid course_run_uuid [] = Inr []"
| "runs_with_uuid course_run_uuid (run # runs) =
     err_bind (py_get run ''uuid'') (\<lambda>u.
     err_bind (runs_with_uuid course_run_uuid runs) (\<lambda>rest.
       Inr (if py_eq u course_run_uuid then run # rest else rest)))"

text \<open>Element \<open>[0]\<close> of the comprehension; the \<open>IndexError\<close> of an empty result is caught and
  gives \<open>None\<close>.\<close>

definition get_course_run_by_uuid :: "json \<Rightarrow> json \<Rightarrow> py_error + json" where
  "get_course_run_by_uuid course course_run_uuid =
     err_bind (py_get_default course ''course_runs'' (JList [])) (\<lambda>v.
     err_bind (py_iter v) (\<lambda>runs.
     err_bind (runs_with_uuid course_run_uuid runs) (\<lambda>matching.
       case matching of [] \<Rightarrow> Inr JNull | course_run # _ \<Rightarrow> Inr course_run)))"

subsection \<open>\<open>_should_index_course\<close>\<close>

definition should_index_course :: "(json \<Rightarrow> bool) \<Rightarrow> content_metadata \<Rightarrow> py_error + bool" where
  "should_index_course act course_metadata =
     (let course_json_metadata = json_metadata course_metadata in
      err_bind (py_get course_json_metadata ''advertised_course_run_uuid'') (\<lambda>advertised_course_run_uuid.
      err_bind (get_course_run_by_uuid course_json_metadata advertised_course_run_uuid) (\<lambda>advertised_course_run.
        if advertised_course_run = JNull then Inr False
        else if \<not> act advertised_course_run then Inr False
        else
          err_bind (py_get course_json_metadata ''owners'') (\<lambda>owners_field.
          let owners = py_or owners_field (JList []) in
          err_bind (py_get advertised_course_run ''hidden'') (\<lambda>hidden.
            if truthy hidden then Inr False
            else err_bind (py_len owners) (\<lambda>n. Inr (0 < n)))))))"

subsection \<open>\<open>partition_course_keys_for_indexing\<close>\<close>

text \<open>The loop over the courses, with the two sets as accumulators. Content keys are
  strings, so \<open>add\<close> cannot fail.\<close>

fun partition_loop ::
  "(json \<Rightarrow> bool) \<Rightarrow> content_metadata list \<Rightarrow> string list \<Rightarrow> string list
     \<Rightarrow> py_error + (string list \<times> string list)" where
  "partition_loop act [] indexable nonindexable = Inr (indexable, nonindexable)"
| "partition_loop act (course_metadata # rest) indexable nonindexable =
     err_bind (should_index_course act course_metadata) (\<lambda>b.
       if b then partition_loop act rest (List.insert (content_key course_metadata) indexable) nonindexable
       else partition_loop act rest indexable (List.insert (content_key course_metadata) nonindexable))"

definition partition_course_keys_for_indexing ::
  "(json \<Rightarrow> bool) \<Rightarrow> content_metadata list \<Rightarrow> py_error + (string list \<times> string list)" where
  "partition_course_keys_for_indexing act courses_content_metadata =
     partition_loop act courses_content_metadata [] []"

section \<open>Shapes of course records\<close>

text \<open>What the data model says of the fields the partitioner reads: the metadata is a
  mapping, \<open>course_runs\<close> is missing or a sequence of mappings, \<open>owners\<close> is missing, null or a
  sequence.\<close>

fun is_mapping :: "json \<Rightarrow> bool" where
  "is_mapping (JDict d) = True"
| "is_mapping _ = False"

fun is_sequence :: "json \<Rightarrow> bool" where
  "is_sequence (JList xs) = True"
| "is_sequence _ = False"

text \<open>The value of a field of a mapping, \<open>None\<close> when it is missing.\<close>

fun field :: "json \<Rightarrow> string \<Rightarrow> json" where
  "field (JDict d) k = dict_get d k JNull"
| "field _ k = JNull"

text \<open>The course runs of a record, none when the field is missing.\<close>

fun course_runs_of :: "json \<Rightarrow> json list" where
  "course_runs_of (JDict d) = (case dict_get d ''course_runs'' (JList []) of JList runs \<Rightarrow> runs | _ \<Rightarrow> [])"
| "course_runs_of _ = []"

definition partition_shaped :: "json \<Rightarrow> bool" where
  "partition_shaped course =
     (is_mapping course
      \<and> (case course of JDict d \<Rightarrow> is_sequence (dict_get d ''course_runs'' (JList [])) | _ \<Rightarrow> False)
      \<and> list_all is_mapping (course_runs_of course)
      \<and> (field course ''owners'' = JNull \<or> is_sequence (field course ''owners'')))"

text \<open>The advertised run: the first run whose uuid equals the record's
  \<open>advertised_course_run_uuid\<close>.\<close>

definition advertised_run :: "json \<Rightarrow> json option" where
  "advertised_run course =
     find (\<lambda>run. py_eq (field run ''uuid'') (field course ''advertised_course_run_uuid''))
       (course_runs_of course)"

section \<open>Projection of a course into an index object\<close>

subsection \<open>\<open>get_course_language\<close>\<close>

definition get_course_language :: "json \<Rightarrow> py_error + json" where
  "get_course_language course =
     err_bind (py_get course ''advertised_course_run_uuid'') (\<lambda>advertised_course_run_uuid.
     err_bind (get_course_run_by_uuid course advertised_course_run_uuid) (\<lambda>advertised_course_run.
       if \<not> truthy advertised_course_run then Inr JNull
       else py_get advertised_course_run ''content_language_search_facet_name''))"

subsection \<open>\<open>get_course_availability\<close>\<close>

text \<open>\<open>COURSE_AVAILABILITY_MESSAGES.get(code, DEFAULT_COURSE_AVAILABILITY)\<close>.\<close>

definition availability_message :: "string \<Rightarrow> string" where
  "availability_message code =
     (if code = ''current'' then ''Available Now''
      else if code = ''upcoming'' then ''Upcoming''
      else ''Archived'')"

text \<open>The loop over the active runs; the set holds strings only.\<close>

fun availability_loop :: "json list \<Rightarrow> string list \<Rightarrow> py_error + string list" where
  "availability_loop [] availability = Inr availability"
| "availability_loop (course_run # rest) availability =
     err_bind (py_get course_run ''availability'') (\<lambda>a.
     err_bind (py_lower (py_or a (JStr []))) (\<lambda>code.
       availability_loop rest (List.insert (availability_message code) availability)))"

definition get_course_availability :: "(json \<Rightarrow> bool) \<Rightarrow> json \<Rightarrow> py_error + json" where
  "get_course_availability act course =
     err_bind (py_get course ''course_runs'') (\<lambda>v.
     err_bind (py_iter (py_or v (JList []))) (\<lambda>course_runs.
     err_bind (availability_loop (filter act course_runs) []) (\<lambda>availability.
       Inr (JList (map JStr availability)))))"

subsection \<open>\<open>get_course_partners\<close>\<close>

fun partners_loop :: "json list \<Rightarrow> py_error + json list" where
  "partners_loop [] = Inr []"
| "partners_loop (owner # rest) =
     err_bind (py_get owner ''name'') (\<lambda>partner_name.
       if truthy partner_name then
         err_bind (py_get owner ''logo_image_url'') (\<lambda>logo_image_url.
         err_bind (partners_loop rest) (\<lambda>partners.
           Inr (JDict [(''name'', partner_name), (''logo_image_url'', logo_image_url)] # partners)))
       else partners_loop rest)"

definition get_course_partners :: "json \<Rightarrow> py_error + json" where
  "get_course_partners course =
     err_bind (py_get course ''owners'') (\<lambda>v.
     err_bind (py_iter (py_or v (JList []))) (\<lambda>owners.
     err_bind (partners_loop owners) (\<lambda>partners. Inr (JList partners))))"

subsection \<open>\<open>_get_course_program_field\<close> and its two callers\<close>

text \<open>The set comprehension \<open>{value for program in programs if (value := program.get(field))}\<close>.\<close>

fun program_values :: "string \<Rightarrow> json list \<Rightarrow> json list \<Rightarrow> py_error + json list" where
  "program_values fld [] acc = Inr acc"
| "program_values fld (program # rest) acc =
     err_bind (py_get program fld) (\<lambda>v.
       if truthy v then err_bind (set_add v acc) (\<lambda>acc'. program_values fld rest acc')
       else program_values fld rest acc)"

definition get_course_program_field :: "json \<Rightarrow> string \<Rightarrow> py_error + json" where
  "get_course_program_field course fld =
     err_bind (py_get course ''programs'') (\<lambda>v.
     err_bind (py_iter (py_or v (JList []))) (\<lambda>programs.
     err_bind (program_values fld programs []) (\<lambda>vs. Inr (JList vs))))"

definition get_course_program_types :: "json \<Rightarrow> py_error + json" where
  "get_course_program_types course = get_course_program_field course ''type''"

definition get_course_program_titles :: "json \<Rightarrow> py_error + json" where
  "get_course_program_titles course = get_course_program_field course ''title''"

subsection \<open>\<open>get_course_subjects\<close>\<close>

text \<open>The loop body: a string is added as it is (\<open>isinstance(subject, str)\<close>); of anything
  else the \<open>name\<close> is read with \<open>get\<close> and added when it is truthy.\<close>

fun subjects_loop :: "json list \<Rightarrow> json list \<Rightarrow> py_error + json list" where
  "subjects_loop [] subject_names = Inr subject_names"
| "subjects_loop (JStr s # rest) subject_names =
     err_bind (set_add (JStr s) subject_names) (\<lambda>names. subjects_loop rest names)"
| "subjects_loop (subject # rest) subject_names =
     err_bind (py_get subject ''name'') (\<lambda>subject_name.
       if truthy subject_name
       then err_bind (set_add subject_name subject_names) (\<lambda>names. subjects_loop rest names)
       else subjects_loop rest subject_names)"

definition get_course_subjects :: "json \<Rightarrow> py_error + json" where
  "get_course_subjects course =
     err_bind (py_get course ''subjects'') (\<lambda>v.
     err_bind (py_iter (py_or v (JList []))) (\<lambda>subjects.
     err_bind (subjects_loop subjects []) (\<lambda>subject_names. Inr (JList subject_names))))"

subsection \<open>\<open>get_course_card_image_url\<close>, \<open>get_course_skill_names\<close>, \<open>get_course_skills\<close>\<close>

definition get_course_card_image_url :: "json \<Rightarrow> py_error + json" where
  "get_course_card_image_url course = py_get course ''image_url''"

text \<open>\<open>set(xs)\<close>.\<close>

fun py_set :: "json list \<Rightarrow> json list \<Rightarrow> py_error + json list" where
  "py_set [] acc = Inr acc"
| "py_set (x # xs) acc = err_bind (set_add x acc) (\<lambda>acc'. py_set xs acc')"

definition get_course_skill_names :: "json \<Rightarrow> py_error + json" where
  "get_course_skill_names course =
     err_bind (py_get course ''skill_names'') (\<lambda>v.
     err_bind (py_iter (py_or v (JList []))) (\<lambda>skill_names.
     err_bind (py_set skill_names []) (\<lambda>names. Inr (JList names))))"

definition get_course_skills :: "json \<Rightarrow> py_error + json" where
  "get_course_skills course =
     err_bind (py_get course ''skills'') (\<lambda>v.
     err_bind (py_iter (py_or v (JList []))) (\<lambda>skills. Inr (JList skills)))"

subsection \<open>\<open>get_advertised_course_run\<close>\<close>

definition get_advertised_course_run :: "json \<Rightarrow> py_error + json" where
  "get_advertised_course_run course =
     err_bind (py_get course ''advertised_course_run_uuid'') (\<lambda>advertised_course_run_uuid.
     err_bind (get_course_run_by_uuid course advertised_course_run_uuid) (\<lambda>full_course_run.
       if full_course_run = JNull then Inr JNull
       else
         err_bind (py_get full_course_run ''key'') (\<lambda>k.
         err_bind (py_get full_course_run ''pacing_type'') (\<lambda>pacing_type.
         err_bind (py_get full_course_run ''start'') (\<lambda>start.
         err_bind (py_get full_course_run ''end'') (\<lambda>end_date.
           Inr (JDict [(''key'', k), (''pacing_type'', pacing_type),
                       (''start'', start), (''end'', end_date)])))))))"

subsection \<open>\<open>_algolia_object_from_course\<close>\<close>

text \<open>The dict literal handed to \<open>update\<close>: its ten values are computed in this order, and
  the first getter that raises ends the call.\<close>

definition derived_fields :: "(json \<Rightarrow> bool) \<Rightarrow> json \<Rightarrow> py_error + (string \<times> json) list" where
  "derived_fields act searchable_course =
     err_bind (get_course_language searchable_course) (\<lambda>language.
     err_bind (get_course_availability act searchable_course) (\<lambda>availability.
     err_bind (get_course_partners searchable_course) (\<lambda>partners.
     err_bind (get_course_program_types searchable_course) (\<lambda>programs.
     err_bind (get_course_program_titles searchable_course) (\<lambda>program_titles.
     err_bind (get_course_subjects searchable_course) (\<lambda>subjects.
     err_bind (get_course_card_image_url searchable_course) (\<lambda>card_image_url.
     err_bind (get_advertised_course_run searchable_course) (\<lambda>advertised_course_run.
     err_bind (get_course_skill_names searchable_course) (\<lambda>skill_names.
     err_bind (get_course_skills searchable_course) (\<lambda>skills.
       Inr [(''language'', language),
            (''availability'', availability),
            (''partners'', partners),
            (''programs'', programs),
            (''program_titles'', program_titles),
            (''subjects'', subjects),
            (''card_image_url'', card_image_url),
            (''advertised_course_run'', advertised_course_run),
            (''skill_names'', skill_names),
            (''skills'', skills)]))))))))))"

text \<open>\<open>d.update(other)\<close> and \<open>d[k] = v\<close>: an existing key keeps its place, a new key goes to
  the end.\<close>

definition dict_update :: "(string \<times> json) list \<Rightarrow> (string \<times> json) list \<Rightarrow> (string \<times> json) list" where
  "dict_update d other = fold (\<lambda>kv. AList.update (fst kv) (snd kv)) other d"

fun py_update :: "json \<Rightarrow> (string \<times> json) list \<Rightarrow> py_error + json" where
  "py_update (JDict d) other = Inr (JDict (dict_update d other))"
| "py_update _ other = Inl AttributeError"

text \<open>The loop that copies the allow-listed fields whose value is not \<open>None\<close>.\<close>

fun project_fields ::
  "json \<Rightarrow> string list \<Rightarrow> (string \<times> json) list \<Rightarrow> py_error + (string \<times> json) list" where
  "project_fields searchable_course [] algolia_object = Inr algolia_object"
| "project_fields searchable_course (fld # rest) algolia_object =
     err_bind (py_get searchable_course fld) (\<lambda>field_value.
       if field_value \<noteq> JNull
       then project_fields searchable_course rest (AList.update fld field_value algolia_object)
       else project_fields searchable_course rest algolia_object)"

text \<open>
  The function mutates an object (\<open>searchable_course.update\<close>), so the objects it works on
  live in a store: a list of cells, the address of a cell being its index. A cell holds a
  whole JSON value; nothing below a top-level dict is ever written to, so nested values are
  kept by value. \<open>copy.deepcopy\<close> allocates a fresh cell holding a copy of its argument.
\<close>

type_synonym store = "json list"

definition deepcopy :: "store \<Rightarrow> nat \<Rightarrow> store \<times> nat" where
  "deepcopy s a = (s @ [s ! a], length s)"

text \<open>The call takes the store and the address of \<open>course\<close> (a valid address), and returns the
  store it leaves behind with the object it returns or the exception it raises.\<close>

definition algolia_object_from_course_st ::
  "(json \<Rightarrow> bool) \<Rightarrow> store \<Rightarrow> nat \<Rightarrow> string list \<Rightarrow> store \<times> (py_error + json)" where
  "algolia_object_from_course_st act s course algolia_fields =
     (let (s1, searchable_course) = deepcopy s course in
      case derived_fields act (s1 ! searchable_course) of
        Inl e \<Rightarrow> (s1, Inl e)
      | Inr other \<Rightarrow>
          (case py_update (s1 ! searchable_course) other of
             Inl e \<Rightarrow> (s1, Inl e)
           | Inr updated \<Rightarrow>
               (let s2 = s1[searchable_course := updated] in
                (s2, err_bind (project_fields (s2 ! searchable_course) algolia_fields [])
                       (\<lambda>algolia_object. Inr (JDict algolia_object))))))"

text \<open>The value of the call on a course held in a store of its own.\<close>

definition algolia_object_from_course :: "(json \<Rightarrow> bool) \<Rightarrow> json \<Rightarrow> string list \<Rightarrow> py_error + json" where
  "algolia_object_from_course act course algolia_fields =
     snd (algolia_object_from_course_st act [course] 0 algolia_fields)"

subsection \<open>\<open>create_algolia_objects_from_courses\<close>\<close>

fun objects_from_courses :: "(json \<Rightarrow> bool) \<Rightarrow> json list \<Rightarrow> string list \<Rightarrow> py_error + json list" where
  "objects_from_courses act [] algolia_fields = Inr []"
| "objects_from_courses act (course # rest) algolia_fields =
     err_bind (algolia_object_from_course act course algolia_fields) (\<lambda>algolia_object.
     err_bind (objects_from_courses act rest algolia_fields) (\<lambda>algolia_objects.
       Inr (algolia_object # algolia_objects)))"

text \<open>\<open>algolia_fields\<close> may be \<open>None\<close> or empty; both stand for no fields.\<close>

definition create_algolia_objects_from_courses ::
  "(json \<Rightarrow> bool) \<Rightarrow> json list \<Rightarrow> string list option \<Rightarrow> py_error + json list" where
  "create_algolia_objects_from_courses act courses algolia_fields =
     objects_from_courses act courses (case algolia_fields of None \<Rightarrow> [] | Some fs \<Rightarrow> fs)"

subsection \<open>Shapes read by \<open>get_course_availability\<close>\<close>

text \<open>The raw availability code of a run, empty when the field is missing or null, and the
  shape of a record whose active runs carry such a code.\<close>

fun is_string :: "json \<Rightarrow> bool" where
  "is_string (JStr s) = True"
| "is_string _ = False"

fun availability_code :: "json \<Rightarrow> string" where
  "availability_code run = (case field run ''availability'' of JStr s \<Rightarrow> s | _ \<Rightarrow> [])"

definition availability_shaped :: "(json \<Rightarrow> bool) \<Rightarrow> json \<Rightarrow> bool" where
  "availability_shaped act course =
     (is_mapping course
      \<and> (field course ''course_runs'' = JNull \<or> is_sequence (field course ''course_runs''))
      \<and> list_all (\<lambda>run. act run \<longrightarrow> is_mapping run
            \<and> (field run ''availability'' = JNull \<or> is_string (field run ''availability'')))
          (course_runs_of course))"

subsection \<open>The two representations of a subject\<close>

text \<open>A subject entry stands for the name \<open>s\<close> when it is the string \<open>s\<close> or a mapping
  whose \<open>name\<close> is \<open>s\<close>.\<close>

fun represents :: "json \<Rightarrow> string \<Rightarrow> bool" where
  "represents (JStr t) s = (t = s)"
| "represents (JDict d) s = (dict_get d ''name'' JNull = JStr s)"
| "represents _ s = False"

subsection \<open>Shapes read by the projection\<close>

text \<open>The elements of a sequence, none for anything else.\<close>

fun elements :: "json \<Rightarrow> json list" where
  "elements (JList xs) = xs"
| "elements _ = []"

text \<open>A field that is missing, null or a sequence of mappings.\<close>

fun mappings_or_null :: "json \<Rightarrow> bool" where
  "mappings_or_null JNull = True"
| "mappings_or_null (JList xs) = list_all is_mapping xs"
| "mappings_or_null _ = False"

text \<open>A value the set-building loops accept: they skip it (it is falsy) or can hash it.\<close>

definition settable :: "json \<Rightarrow> bool" where
  "settable v = (hashable v \<or> \<not> truthy v)"

text \<open>A subject entry: a string, or a mapping (with or without a name).\<close>

fun subject_shaped :: "json \<Rightarrow> bool" where
  "subject_shaped (JStr s) = True"
| "subject_shaped (JDict d) = settable (dict_get d ''name'' JNull)"
| "subject_shaped _ = False"

text \<open>
  The records on which the projection is shown not to raise. A record has this shape when
  all of the following hold:
  \<^item> it is a mapping;
  \<^item> \<open>course_runs\<close> is missing or a sequence of mappings, and the \<open>availability\<close> of every
    active run is missing, null or a string;
  \<^item> \<open>owners\<close> is missing, null or a sequence of mappings;
  \<^item> \<open>programs\<close> is missing, null or a sequence of mappings, and the \<open>type\<close> and the \<open>title\<close>
    of every program are missing or anything but a non-empty list or a non-empty mapping;
  \<^item> \<open>subjects\<close> is missing, null or a sequence, and every entry is a string or a mapping
    whose \<open>name\<close> is missing or anything but a non-empty list or a non-empty mapping;
  \<^item> \<open>skill_names\<close> is missing, null or a sequence of values that are neither lists nor
    mappings;
  \<^item> \<open>skills\<close> is missing, null or a sequence.

  Every other field of a record, a run, an owner, a program or a subject mapping is free.
\<close>

definition projection_shaped :: "(json \<Rightarrow> bool) \<Rightarrow> json \<Rightarrow> bool" where
  "projection_shaped act course =
     (partition_shaped course
      \<and> availability_shaped act course
      \<and> mappings_or_null (field course ''owners'')
      \<and> mappings_or_null (field course ''programs'')
      \<and> list_all (\<lambda>p. settable (field p ''type'') \<and> settable (field p ''title''))
            (elements (field course ''programs''))
      \<and> (field course ''subjects'' = JNull \<or> is_sequence (field course ''subjects''))
      \<and> list_all subject_shaped (elements (field course ''subjects''))
      \<and> (field course ''skill_names'' = JNull \<or> is_sequence (field course ''skill_names''))
      \<and> list_all hashable (elements (field course ''skill_names''))
      \<and> (field course ''skills'' = JNull \<or> is_sequence (field course ''skills'')))"

section \<open>Example records\<close>

text \<open>The record of \<open>test_should_index_course\<close>, with every flag at its default.\<close>

definition example_run :: json where
  "example_run = JDict [(''hidden'', JBool False), (''uuid'', JStr ''run-1''),
     (''status'', JStr ''published''), (''is_enrollable'', JBool True),
     (''is_marketable'', JBool True)]"

definition example_course :: content_metadata where
  "example_course = \<lparr>content_key = ''fakeX'', json_metadata = JDict
     [(''advertised_course_run_uuid'', JStr ''run-1''), (''course_runs'', JList [example_run]),
      (''owners'', JList [JDict [(''name'', JStr ''edX'')]])]\<rparr>"

text \<open>A second row with the same content key and no owners.\<close>

definition example_course_no_owners :: content_metadata where
  "example_course_no_owners = \<lparr>content_key = ''fakeX'', json_metadata = JDict
     [(''advertised_course_run_uuid'', JStr ''run-1''), (''course_runs'', JList [example_run]),
      (''owners'', JList [])]\<rparr>"

text \<open>The unpublished course of the indexing tests.\<close>

definition example_course_unpublished :: content_metadata where
  "example_course_unpublished = \<lparr>content_key = ''testX'', json_metadata = JDict
     [(''advertised_course_run_uuid'', JStr ''run-2''),
      (''course_runs'', JList [JDict [(''hidden'', JBool False), (''uuid'', JStr ''run-2''),
         (''status'', JStr ''unpublished''), (''is_enrollable'', JBool True),
         (''is_marketable'', JBool True)]]),
      (''owners'', JList [JDict [(''name'', JStr ''edX'')]])]\<rparr>"

text \<open>A course with two active runs that are current, an inactive upcoming run and an
  active run without a code.\<close>

definition example_availability_course :: json where
  "example_availability_course = JDict [(''course_runs'', JList
     [JDict [(''status'', JStr ''published''), (''is_enrollable'', JBool True),
             (''is_marketable'', JBool True), (''availability'', JStr ''Current'')],
      JDict [(''status'', JStr ''unpublished''), (''is_enrollable'', JBool True),
             (''is_marketable'', JBool True), (''availability'', JStr ''Upcoming'')],
      JDict [(''status'', JStr ''published''), (''is_enrollable'', JBool True),
             (''is_marketable'', JBool True), (''availability'', JStr ''CURRENT'')],
      JDict [(''status'', JStr ''published''), (''is_enrollable'', JBool True),
             (''is_marketable'', JBool True)]])]"

text \<open>A record with no course runs, null owners and a subject mapping without a name.\<close>

definition example_course_sparse :: content_metadata where
  "example_course_sparse = \<lparr>content_key = ''sparseX'', json_metadata = JDict
     [(''owners'', JNull), (''subjects'', JList [JDict [], JStr ''Communication''])]\<rparr>"

text \<open>Two malformed records: a subject that is a number, and a course run that is a string.\<close>

definition example_course_bad_subject :: content_metadata where
  "example_course_bad_subject = \<lparr>content_key = ''badX'', json_metadata = JDict
     [(''subjects'', JList [JInt 5])]\<rparr>"

definition example_course_bad_run :: content_metadata where
  "example_course_bad_run = \<lparr>content_key = ''badY'', json_metadata = JDict
     [(''course_runs'', JList [JStr ''run-1''])]\<rparr>"

text \<open>Three more: an active run whose availability is a number, a program whose title is a
  list, and a subject mapping whose name is a list.\<close>

definition example_course_bad_availability :: content_metadata where
  "example_course_bad_availability = \<lparr>content_key = ''badA'', json_metadata = JDict
     [(''course_runs'', JList [JDict [(''status'', JStr ''published''),
         (''is_enrollable'', JBool True), (''is_marketable'', JBool True),
         (''availability'', JInt 3)]])]\<rparr>"

definition example_course_bad_title :: content_metadata where
  "example_course_bad_title = \<lparr>content_key = ''badT'', json_metadata = JDict
     [(''programs'', JList [JDict [(''title'', JList [JStr ''Synchronicity''])]])]\<rparr>"

definition example_course_bad_name :: content_metadata where
  "example_course_bad_name = \<lparr>content_key = ''badN'', json_metadata = JDict
     [(''subjects'', JList [JDict [(''name'', JList [JStr ''Communication''])]])]\<rparr>"

section \<open>Batched association fan-out\<close>

subsection \<open>\<open>ALGOLIA_UUID_BATCH_SIZE\<close> and \<open>get_algolia_object_id\<close>\<close>

text \<open>The default batch size.\<close>

definition ALGOLIA_UUID_BATCH_SIZE :: nat where
  "ALGOLIA_UUID_BATCH_SIZE = 100"


text \<open>The argument is a uuid string or \<open>None\<close>; an empty string is falsy.\<close>

definition get_algolia_object_id :: "string option \<Rightarrow> string option" where
  "get_algolia_object_id uuid =
     (case uuid of
        Some u \<Rightarrow> if u \<noteq> [] then Some (''course-'' @ u) else None
      | None \<Rightarrow> None)"

subsection \<open>The projector's fan-out\<close>

text \<open>
  Modelled from the spec: the batched fan-out is code of \<open>tasks.py\<close>, which is missing. The
  definitions follow section 4.3 of the spec: each association list is sorted, cut into
  consecutive groups of at most \<open>B\<close>, and group \<open>i\<close> of kind \<open>K\<close> becomes one object with the
  identifier \<open>course-{uuid}-{K}-uuids-{i}\<close>, the content key and that one association field.
  The spec says nothing of a batch size of zero; the model then emits no object.
\<close>

text \<open>Modelled from the spec: the three association kinds and their names in identifiers.\<close>

datatype association_kind = Catalog | Customer | CatalogQuery

fun kind_name :: "association_kind \<Rightarrow> string" where
  "kind_name Catalog = ''catalog''"
| "kind_name Customer = ''customer''"
| "kind_name CatalogQuery = ''catalog-query''"

text \<open>Modelled from the spec: an IndexObject of the fan-out, with its identifier, its content
  key and the three association fields, each populated or not.\<close>

record index_object =
  objectID :: string
  key :: string
  enterprise_catalog_uuids :: "string list option"
  enterprise_customer_uuids :: "string list option"
  enterprise_catalog_query_uuids :: "string list option"

text \<open>Modelled from the spec: the decimal numeral of a batch index in an identifier.\<close>

definition digit_char :: "nat \<Rightarrow> char" where
  "digit_char d = char_of (48 + d)"

function string_of_nat :: "nat \<Rightarrow> string" where
  "string_of_nat n = (if n < 10 then [digit_char n] else string_of_nat (n div 10) @ [digit_char (n mod 10)])"
  by pat_completeness auto
termination
  by (relation "measure (\<lambda>n. n)") auto

declare string_of_nat.simps [simp del]

text \<open>Modelled from the spec: the identifier format
  \<open>course-{uuid}-{association-kind}-uuids-{batch-index}\<close>.\<close>

definition fanout_object_id :: "string \<Rightarrow> association_kind \<Rightarrow> nat \<Rightarrow> string" where
  "fanout_object_id uuid K i =
     ''course-'' @ uuid @ ''-'' @ kind_name K @ ''-uuids-'' @ string_of_nat i"

text \<open>Modelled from the spec: consecutive groups of at most \<open>B\<close> elements.\<close>

function chunks :: "nat \<Rightarrow> 'a list \<Rightarrow> 'a list list" where
  "chunks B xs = (if B = 0 \<or> xs = [] then [] else take B xs # chunks B (drop B xs))"
  by pat_completeness auto
termination
  by (relation "measure (\<lambda>(B, xs). length xs)") auto

declare chunks.simps [simp del]

text \<open>Modelled from the spec: the object of one batch, with the identifier, the content key
  and the field of the kind.\<close>

fun batch_object :: "string \<Rightarrow> string \<Rightarrow> association_kind \<Rightarrow> nat \<Rightarrow> string list \<Rightarrow> index_object" where
  "batch_object uuid course_key Catalog i batch =
     \<lparr>objectID = fanout_object_id uuid Catalog i, key = course_key,
      enterprise_catalog_uuids = Some batch, enterprise_customer_uuids = None,
      enterprise_catalog_query_uuids = None\<rparr>"
| "batch_object uuid course_key Customer i batch =
     \<lparr>objectID = fanout_object_id uuid Customer i, key = course_key,
      enterprise_catalog_uuids = None, enterprise_customer_uuids = Some batch,
      enterprise_catalog_query_uuids = None\<rparr>"
| "batch_object uuid course_key CatalogQuery i batch =
     \<lparr>objectID = fanout_object_id uuid CatalogQuery i, key = course_key,
      enterprise_catalog_uuids = None, enterprise_customer_uuids = None,
      enterprise_catalog_query_uuids = Some batch\<rparr>"

text \<open>Modelled from the spec: the objects of one kind, from the sorted list cut into
  batches, numbered from 0.\<close>

definition batched_objects ::
  "nat \<Rightarrow> string \<Rightarrow> string \<Rightarrow> association_kind \<Rightarrow> string list \<Rightarrow> index_object list" where
  "batched_objects B uuid course_key K uuids =
     map (\<lambda>(i, batch). batch_object uuid course_key K i batch)
       (enumerate 0 (chunks B (sort uuids)))"

text \<open>Modelled from the spec: the association set of a course (catalog, customer and
  catalog-query uuids) and the fan-out over the three kinds, in this order.\<close>

record association_set =
  catalog_uuids :: "string list"
  customer_uuids :: "string list"
  catalog_query_uuids :: "string list"

definition fan_out :: "nat \<Rightarrow> string \<Rightarrow> string \<Rightarrow> association_set \<Rightarrow> index_object list" where
  "fan_out B uuid course_key assoc =
     batched_objects B uuid course_key Catalog (catalog_uuids assoc)
     @ batched_objects B uuid course_key Customer (customer_uuids assoc)
     @ batched_objects B uuid course_key CatalogQuery (catalog_query_uuids assoc)"

text \<open>
  Modelled from the spec: which uuid goes into the identifier. The spec calls it the
  advertised run's; the test \<open>test_index_algolia_with_all_uuids\<close> builds the expected
  identifiers from \<open>json_metadata.get('uuid')\<close>, the uuid of the course record itself, and
  \<open>get_algolia_object_id\<close> documents its argument as a course uuid. The model follows the
  test. The spec does not say what identifier a record without a uuid string gets; the model
  then uses the empty string.
\<close>

definition course_uuid :: "json \<Rightarrow> string" where
  "course_uuid course = (case field course ''uuid'' of JStr u \<Rightarrow> u | _ \<Rightarrow> [])"

definition project_course :: "nat \<Rightarrow> content_metadata \<Rightarrow> association_set \<Rightarrow> index_object list" where
  "project_course B course_metadata assoc =
     fan_out B (course_uuid (json_metadata course_metadata)) (content_key course_metadata) assoc"

text \<open>Modelled from the spec: the association field of a kind, and the number of populated
  association fields of an object.\<close>

fun association_field :: "association_kind \<Rightarrow> index_object \<Rightarrow> string list option" where
  "association_field Catalog obj = enterprise_catalog_uuids obj"
| "association_field Customer obj = enterprise_customer_uuids obj"
| "association_field CatalogQuery obj = enterprise_catalog_query_uuids obj"

definition populated_fields :: "index_object \<Rightarrow> nat" where
  "populated_fields obj =
     length (filter (\<lambda>K. association_field K obj \<noteq> None) [Catalog, Customer, CatalogQuery])"

text \<open>Modelled from the spec: the batch an object of kind \<open>K\<close> carries, and the association
  list of a kind.\<close>

definition batch_of :: "association_kind \<Rightarrow> index_object \<Rightarrow> string list" where
  "batch_of K obj = (case association_field K obj of Some batch \<Rightarrow> batch | None \<Rightarrow> [])"

fun uuids_of :: "association_kind \<Rightarrow> association_set \<Rightarrow> string list" where
  "uuids_of Catalog assoc = catalog_uuids assoc"
| "uuids_of Customer assoc = customer_uuids assoc"
| "uuids_of CatalogQuery assoc = catalog_query_uuids assoc"

section \<open>Index synchronizer\<close>

text \<open>
  Modelled from the spec: \<open>index_enterprise_catalog_courses_in_algolia_task\<close> and the
  recently-indexed cache are code of \<open>tasks.py\<close>, which is missing. The definitions follow
  section 4.4 of the spec. The state holds the cache (each content key with the time its
  entry expires), the arguments of the calls of \<open>replace_all_objects\<close> so far, and the content
  keys the cache was asked about so far. The catalog membership provider is the parameter
  \<open>assoc\<close>. A cycle runs at one time \<open>now\<close>; an entry marked at \<open>now\<close> expires at \<open>now + ttl\<close>.
  The remote call is recorded, not performed; its failure is outside the model.
\<close>

text \<open>Modelled from the spec: the state a cycle reads and leaves behind.\<close>

record sync_state =
  cache :: "(string \<times> int) list"
  replace_all_calls :: "index_object list list"
  cache_checks :: "string list"

text \<open>Modelled from the spec: the membership test of the recently-indexed cache and the
  marking of an entry.\<close>

definition was_recently_indexed :: "(string \<times> int) list \<Rightarrow> int \<Rightarrow> string \<Rightarrow> bool" where
  "was_recently_indexed c now k = (case map_of c k of Some expiry \<Rightarrow> now < expiry | None \<Rightarrow> False)"

definition mark_recently_indexed :: "(string \<times> int) list \<Rightarrow> int \<Rightarrow> int \<Rightarrow> string \<Rightarrow> (string \<times> int) list" where
  "mark_recently_indexed c now ttl k = AList.update k (now + ttl) c"

text \<open>Modelled from the spec: the objects of the course with a given content key.\<close>

definition objects_for ::
  "nat \<Rightarrow> (string \<Rightarrow> association_set) \<Rightarrow> content_metadata list \<Rightarrow> string \<Rightarrow> index_object list" where
  "objects_for B assoc courses k =
     (case find (\<lambda>c. content_key c = k) courses of
        None \<Rightarrow> []
      | Some c \<Rightarrow> project_course B c (assoc k))"

text \<open>Modelled from the spec: for each indexable course, ask the cache; skip the course when
  it is there; otherwise project it, mark it, and add its objects to the aggregate.\<close>

fun index_loop ::
  "nat \<Rightarrow> int \<Rightarrow> (string \<Rightarrow> association_set) \<Rightarrow> content_metadata list \<Rightarrow> int
     \<Rightarrow> string list \<Rightarrow> sync_state \<Rightarrow> index_object list \<Rightarrow> sync_state \<times> index_object list" where
  "index_loop B ttl assoc courses now [] st aggregate = (st, aggregate)"
| "index_loop B ttl assoc courses now (k # ks) st aggregate =
     (let asked = st\<lparr>cache_checks := cache_checks st @ [k]\<rparr> in
      if was_recently_indexed (cache asked) now k
      then index_loop B ttl assoc courses now ks asked aggregate
      else index_loop B ttl assoc courses now ks
             (asked\<lparr>cache := mark_recently_indexed (cache asked) now ttl k\<rparr>)
             (aggregate @ objects_for B assoc courses k))"

text \<open>Modelled from the spec: one cycle, that is partition, loop over the indexable keys, one
  replace-all call with the aggregate.\<close>

definition index_synchronizer ::
  "(json \<Rightarrow> bool) \<Rightarrow> nat \<Rightarrow> int \<Rightarrow> (string \<Rightarrow> association_set) \<Rightarrow> content_metadata list
     \<Rightarrow> int \<Rightarrow> sync_state \<Rightarrow> py_error + sync_state" where
  "index_synchronizer act B ttl assoc courses now st =
     err_bind (partition_course_keys_for_indexing act courses) (\<lambda>keys.
       let looped = index_loop B ttl assoc courses now (fst keys) st [] in
       Inr ((fst looped)\<lparr>replace_all_calls := replace_all_calls (fst looped) @ [snd looped]\<rparr>))"

text \<open>A course with a uuid of its own, and its associations.\<close>

definition example_course_indexed :: content_metadata where
  "example_course_indexed = \<lparr>content_key = ''fakeX'', json_metadata = JDict
     [(''uuid'', JStr ''course-uuid-1''), (''advertised_course_run_uuid'', JStr ''run-1''),
      (''course_runs'', JList [example_run]),
      (''owners'', JList [JDict [(''name'', JStr ''edX'')]])]\<rparr>"

definition example_associations :: association_set where
  "example_associations = \<lparr>catalog_uuids = [''cat-2'', ''cat-1''], customer_uuids = [''cust-1''],
     catalog_query_uuids = [''query-1'']\<rparr>"

definition empty_sync_state :: sync_state where
  "empty_sync_state = \<lparr>cache = [], replace_all_calls = [], cache_checks = []\<rparr>"

section \<open>Execution semaphore\<close>

text \<open>
  Modelled from the spec: \<open>enterprise_catalog/apps/api/tasks.py\<close>, which holds
  \<open>expiring_task_semaphore\<close> and \<open>TaskRecentlyRunError\<close>, is missing; only its tests are at hand.
  The definitions of this section follow section 4.1 of the spec, except for the statuses
  that block. The spec names the unready set. In the test
  \<open>test_semaphore_raises_recent_run_error_for_same_args\<close> the only record has the status
  SUCCESS it was created with, and the call raises; the statuses the tests show to be
  ignored are FAILURE and REVOKED (\<open>test_failed_or_revoked_tasks_are_ignored_by_semaphore\<close>).
  The model follows the tests: every status but FAILURE and REVOKED blocks.
  A JobRecord carries its serialized positional and keyword arguments as strings; times are
  integers, and the recency window ends at the time of the invocation.
\<close>

text \<open>Modelled from the spec: the status of a JobRecord and the JobRecord itself.\<close>

datatype status = PENDING | STARTED | RETRY | SUCCESS | FAILURE | REVOKED

record job_record =
  job_name :: string
  positional_args :: string
  keyword_args :: string
  job_status :: status
  created_at :: int
  execution_id :: string

text \<open>Modelled from the spec: the unready set is PENDING, STARTED, RETRY.\<close>

fun unready :: "status \<Rightarrow> bool" where
  "unready PENDING = True"
| "unready STARTED = True"
| "unready RETRY = True"
| "unready _ = False"

text \<open>Modelled from the spec: the statuses the semaphore ignores, as the tests have them.\<close>

fun ignored_status :: "status \<Rightarrow> bool" where
  "ignored_status FAILURE = True"
| "ignored_status REVOKED = True"
| "ignored_status _ = False"

text \<open>Modelled from the spec: the identity of an invocation (its own execution id and its
  serialized arguments) and the error of the semaphore.\<close>

record execution_identity =
  own_execution_id :: string
  own_args :: string
  own_kwargs :: string

datatype semaphore_error = RecentlyRunError string string string

text \<open>Modelled from the spec: step 1, the records of the job whose status is not ignored,
  that were created within the window that ends now, and that are not the invocation's
  own.\<close>

definition recent_records ::
  "job_record list \<Rightarrow> string \<Rightarrow> int \<Rightarrow> int \<Rightarrow> string \<Rightarrow> job_record list" where
  "recent_records store name now window own_id =
     filter (\<lambda>r. job_name r = name \<and> \<not> ignored_status (job_status r)
                 \<and> now - window \<le> created_at r \<and> created_at r \<le> now
                 \<and> execution_id r \<noteq> own_id) store"

text \<open>Modelled from the spec: step 2, those among them with the invocation's arguments.\<close>

definition equivalent_records ::
  "job_record list \<Rightarrow> string \<Rightarrow> int \<Rightarrow> int \<Rightarrow> execution_identity \<Rightarrow> job_record list" where
  "equivalent_records store name now window ident =
     filter (\<lambda>r. positional_args r = own_args ident \<and> keyword_args r = own_kwargs ident)
       (recent_records store name now window (own_execution_id ident))"

text \<open>Modelled from the spec: steps 3 and 4, the wrapped unit of work.\<close>

definition expiring_task_semaphore ::
  "job_record list \<Rightarrow> string \<Rightarrow> int \<Rightarrow> int \<Rightarrow> execution_identity
     \<Rightarrow> (string \<Rightarrow> string \<Rightarrow> 'r) \<Rightarrow> semaphore_error + 'r" where
  "expiring_task_semaphore store name now window ident work =
     (if equivalent_records store name now window ident \<noteq> []
      then Inl (RecentlyRunError name (own_args ident) (own_kwargs ident))
      else Inr (work (own_args ident) (own_kwargs ident)))"

text \<open>Modelled from the spec: the conditions under which a record blocks an invocation of
  the job \<open>name\<close>.\<close>

definition blocks :: "string \<Rightarrow> int \<Rightarrow> int \<Rightarrow> execution_identity \<Rightarrow> job_record \<Rightarrow> bool" where
  "blocks name now window ident r =
     (job_name r = name
      \<and> \<not> ignored_status (job_status r)
      \<and> (now - window \<le> created_at r \<and> created_at r \<le> now)
      \<and> (positional_args r = own_args ident \<and> keyword_args r = own_kwargs ident)
      \<and> execution_id r \<noteq> own_execution_id ident)"

text \<open>The record and the invocation of the semaphore tests: the record as the tests create
  it, and the same record pending.\<close>

definition example_record :: job_record where
  "example_record = \<lparr>job_name = ''mock_task'', positional_args = ''[123, 77]'',
     keyword_args = ''{}'', job_status = SUCCESS, created_at = 1000, execution_id = ''other''\<rparr>"

definition example_identity :: execution_identity where
  "example_identity = \<lparr>own_execution_id = ''mine'', own_args = ''[123, 77]'', own_kwargs = ''{}''\<rparr>"

section \<open>Properties\<close>

lemma err_bind_Inl [simp]: "err_bind (Inl e) f = Inl e"
  by (simp add: err_bind_def)

lemma err_bind_Inr [simp]: "err_bind (Inr v) f = f v"
  by (simp add: err_bind_def)

lemma py_get_mapping [simp]: "py_get (JDict d) k = Inr (dict_get d k JNull)"
  by (simp add: py_get_def)

lemma runs_with_uuid_mappings:
  "list_all is_mapping runs \<Longrightarrow>
     runs_with_uuid u runs = Inr (filter (\<lambda>run. py_eq (field run ''uuid'') u) runs)"
proof (induction runs)
  case Nil
  show ?case by simp
next
  case (Cons run runs)
  from Cons.prems obtain d where run: "run = JDict d"
    by (cases run) simp_all
  from Cons show ?case
    by (simp add: run)
qed

lemma find_as_filter:
  "find P xs = (case filter P xs of [] \<Rightarrow> None | x # _ \<Rightarrow> Some x)"
  by (induction xs) simp_all

lemma get_course_run_by_uuid_shaped:
  assumes "partition_shaped course"
  shows "get_course_run_by_uuid course (field course ''advertised_course_run_uuid'') =
           Inr (case advertised_run course of None \<Rightarrow> JNull | Some run \<Rightarrow> run)"
proof -
  from assms obtain d where c: "course = JDict d"
    by (cases course) (simp_all add: partition_shaped_def)
  from assms c obtain runs where r: "dict_get d ''course_runs'' (JList []) = JList runs"
    by (cases "dict_get d ''course_runs'' (JList [])") (simp_all add: partition_shaped_def)
  from assms c r have m: "list_all is_mapping runs"
    by (simp add: partition_shaped_def)
  show ?thesis
    by (simp add: get_course_run_by_uuid_def c r runs_with_uuid_mappings [OF m]
        advertised_run_def find_as_filter split: list.splits)
qed

lemma advertised_run_mapping:
  assumes "partition_shaped course" and "advertised_run course = Some run"
  shows "is_mapping run"
proof -
  from assms(2) have "run \<in> set (course_runs_of course)"
    by (auto simp: advertised_run_def find_Some_iff)
  with assms(1) show ?thesis
    by (simp add: partition_shaped_def list_all_iff)
qed

lemma should_index_course_value:
  assumes "partition_shaped (json_metadata c)"
  shows "should_index_course act c =
           Inr (\<exists>run. advertised_run (json_metadata c) = Some run
                  \<and> act run
                  \<and> \<not> truthy (field run ''hidden'')
                  \<and> (\<exists>owner owners. field (json_metadata c) ''owners'' = JList (owner # owners)))"
proof -
  from assms obtain d where c: "json_metadata c = JDict d"
    by (cases "json_metadata c") (simp_all add: partition_shaped_def)
  have run: "get_course_run_by_uuid (JDict d) (dict_get d ''advertised_course_run_uuid'' JNull) =
               Inr (case advertised_run (JDict d) of None \<Rightarrow> JNull | Some run \<Rightarrow> run)"
    using get_course_run_by_uuid_shaped [OF assms] by (simp add: c)
  from assms c have own: "dict_get d ''owners'' JNull = JNull \<or> is_sequence (dict_get d ''owners'' JNull)"
    by (simp add: partition_shaped_def)
  show ?thesis
  proof (cases "advertised_run (JDict d)")
    case None
    then show ?thesis
      by (simp add: should_index_course_def c run)
  next
    case (Some r)
    with assms c have "is_mapping r"
      using advertised_run_mapping [of "JDict d" r] by simp
    then obtain rd where r: "r = JDict rd"
      by (cases r) simp_all
    from own show ?thesis
    proof
      assume "dict_get d ''owners'' JNull = JNull"
      then show ?thesis
        by (simp add: should_index_course_def c run Some r py_or_def)
    next
      assume "is_sequence (dict_get d ''owners'' JNull)"
      then obtain os where "dict_get d ''owners'' JNull = JList os"
        by (cases "dict_get d ''owners'' JNull") simp_all
      then show ?thesis
        by (cases os) (simp_all add: should_index_course_def c run Some r py_or_def)
    qed
  qed
qed

text \<open>
  C2. For a course record shaped as the data model says, \<open>_should_index_course\<close> returns,
  and it returns true exactly when all four conditions hold: a course run's uuid equals
  \<open>advertised_course_run_uuid\<close> (the advertised run is resolved), that run is active, its
  hidden flag is not true, and the owners list is not empty. Each condition is necessary:
  with any one of them false the result is false.
\<close>

theorem should_index_course_iff:
  assumes "partition_shaped (json_metadata c)"
  shows "should_index_course act c =
           Inr (\<exists>run. advertised_run (json_metadata c) = Some run
                  \<and> act run
                  \<and> \<not> truthy (field run ''hidden'')
                  \<and> (\<exists>owner owners. field (json_metadata c) ''owners'' = JList (owner # owners)))"
  using assms by (rule should_index_course_value)

theorem should_index_course_iff_witness:
  "partition_shaped (json_metadata example_course)
   \<and> should_index_course published_run_active example_course = Inr True"
proof -
  have h: "partition_shaped (json_metadata example_course)"
    by (simp add: example_course_def example_run_def partition_shaped_def dict_get_def)
  have a: "advertised_run (json_metadata example_course) = Some example_run"
    by (simp add: example_course_def example_run_def advertised_run_def dict_get_def)
  have b: "published_run_active example_run"
    by code_simp
  have c: "\<not> truthy (field example_run ''hidden'')"
    by (simp add: example_run_def dict_get_def)
  have d: "field (json_metadata example_course) ''owners'' = JList [JDict [(''name'', JStr ''edX'')]]"
    by (simp add: example_course_def dict_get_def)
  show ?thesis
    using should_index_course_iff [OF h, of published_run_active] h a b c d by simp
qed

lemma partition_loop_sets:
  "partition_loop act cs ix nx = Inr (ix', nx') \<Longrightarrow>
     set ix' = set ix \<union> content_key ` {c \<in> set cs. should_index_course act c = Inr True}
   \<and> set nx' = set nx \<union> content_key ` {c \<in> set cs. should_index_course act c = Inr False}"
proof (induction cs arbitrary: ix nx)
  case Nil
  then show ?case by simp
next
  case (Cons c cs)
  show ?case
  proof (cases "should_index_course act c")
    case (Inl e)
    with Cons.prems show ?thesis by simp
  next
    case (Inr b)
    show ?thesis
    proof (cases b)
      case True
      with Inr Cons.prems
      have "partition_loop act cs (List.insert (content_key c) ix) nx = Inr (ix', nx')"
        by simp
      from Cons.IH [OF this] Inr True show ?thesis
        by auto
    next
      case False
      with Inr Cons.prems
      have "partition_loop act cs ix (List.insert (content_key c) nx) = Inr (ix', nx')"
        by simp
      from Cons.IH [OF this] Inr False show ?thesis
        by auto
    qed
  qed
qed

lemma partition_loop_distinct:
  "partition_loop act cs ix nx = Inr (ix', nx') \<Longrightarrow> distinct ix \<Longrightarrow> distinct nx \<Longrightarrow>
     distinct ix' \<and> distinct nx'"
proof (induction cs arbitrary: ix nx)
  case Nil
  then show ?case by simp
next
  case (Cons c cs)
  then show ?case
    by (cases "should_index_course act c") (auto split: if_splits)
qed

lemma partition_loop_returns:
  "list_all (\<lambda>c. \<exists>b. should_index_course act c = Inr b) cs \<Longrightarrow>
     \<exists>ix' nx'. partition_loop act cs ix nx = Inr (ix', nx')"
proof (induction cs arbitrary: ix nx)
  case Nil
  show ?case by simp
next
  case (Cons c cs)
  then show ?case by auto
qed

text \<open>
  C3 (as amended). For course records shaped as the data model says,
  \<open>partition_course_keys_for_indexing\<close> returns two duplicate-free collections: the content
  keys of the records that are indexable and the content keys of those that are not. Their
  union is the set of distinct content keys of the input. They are disjoint whenever
  records that share a content key agree on indexability, in particular when content keys
  are unique.
\<close>

theorem partition_course_keys_sets:
  assumes "list_all (\<lambda>c. partition_shaped (json_metadata c)) courses"
  shows "\<exists>indexable nonindexable.
           partition_course_keys_for_indexing act courses = Inr (indexable, nonindexable)
         \<and> distinct indexable \<and> distinct nonindexable
         \<and> set indexable = content_key ` {c \<in> set courses. should_index_course act c = Inr True}
         \<and> set nonindexable = content_key ` {c \<in> set courses. should_index_course act c = Inr False}
         \<and> set indexable \<union> set nonindexable = content_key ` set courses
         \<and> ((\<forall>c \<in> set courses. \<forall>c' \<in> set courses. content_key c = content_key c' \<longrightarrow>
                should_index_course act c = should_index_course act c')
              \<longrightarrow> set indexable \<inter> set nonindexable = {})"
proof -
  have ret: "list_all (\<lambda>c. \<exists>b. should_index_course act c = Inr b) courses"
    using assms should_index_course_value by (auto simp: list_all_iff)
  then obtain ix nx where p: "partition_loop act courses [] [] = Inr (ix, nx)"
    using partition_loop_returns by blast
  from partition_loop_sets [OF p]
  have ix: "set ix = content_key ` {c \<in> set courses. should_index_course act c = Inr True}"
    and nx: "set nx = content_key ` {c \<in> set courses. should_index_course act c = Inr False}"
    by simp_all
  from partition_loop_distinct [OF p] have d: "distinct ix" "distinct nx"
    by simp_all
  have un: "set ix \<union> set nx = content_key ` set courses"
  proof
    show "set ix \<union> set nx \<subseteq> content_key ` set courses"
      unfolding ix nx by blast
    show "content_key ` set courses \<subseteq> set ix \<union> set nx"
    proof
      fix k assume "k \<in> content_key ` set courses"
      then obtain c where c: "c \<in> set courses" "k = content_key c" by blast
      with ret obtain b where "should_index_course act c = Inr b"
        by (auto simp: list_all_iff)
      with c show "k \<in> set ix \<union> set nx"
        unfolding ix nx by (cases b) auto
    qed
  qed
  have dis: "(\<forall>c \<in> set courses. \<forall>c' \<in> set courses. content_key c = content_key c' \<longrightarrow>
                should_index_course act c = should_index_course act c')
              \<longrightarrow> set ix \<inter> set nx = {}"
    unfolding ix nx by fastforce
  from p d ix nx un dis show ?thesis
    unfolding partition_course_keys_for_indexing_def by blast
qed


theorem partition_course_keys_sets_witness:
  "list_all (\<lambda>c. partition_shaped (json_metadata c)) [example_course, example_course_unpublished]
   \<and> (\<exists>indexable nonindexable.
         partition_course_keys_for_indexing published_run_active
           [example_course, example_course_unpublished] = Inr (indexable, nonindexable)
       \<and> distinct indexable \<and> distinct nonindexable
       \<and> set indexable \<union> set nonindexable = {''fakeX'', ''testX''}
       \<and> set indexable \<inter> set nonindexable = {})"
proof -
  let ?cs = "[example_course, example_course_unpublished]"
  have h: "list_all (\<lambda>c. partition_shaped (json_metadata c)) ?cs"
    by (simp add: example_course_def example_course_unpublished_def example_run_def
        partition_shaped_def dict_get_def)
  have a: "should_index_course published_run_active example_course = Inr True"
    by code_simp
  have b: "should_index_course published_run_active example_course_unpublished = Inr False"
    by code_simp
  have k: "content_key example_course \<noteq> content_key example_course_unpublished"
    by (simp add: example_course_def example_course_unpublished_def)
  have agree: "\<forall>c \<in> set ?cs. \<forall>c' \<in> set ?cs. content_key c = content_key c' \<longrightarrow>
      should_index_course published_run_active c = should_index_course published_run_active c'"
    using k by auto
  have ks: "content_key ` set ?cs = {''fakeX'', ''testX''}"
    by (simp add: example_course_def example_course_unpublished_def)
  from partition_course_keys_sets [OF h, of published_run_active] agree ks h
  show ?thesis by metis
qed

theorem partition_not_disjoint:
  "partition_course_keys_for_indexing published_run_active [example_course, example_course_no_owners]
     = Inr ([''fakeX''], [''fakeX''])
   \<and> set [''fakeX''] \<inter> set [''fakeX''] \<noteq> ({} :: string set)"
  by code_simp

lemma availability_loop_labels:
  assumes "list_all (\<lambda>run. is_mapping run
            \<and> (field run ''availability'' = JNull \<or> is_string (field run ''availability''))) runs"
    and "distinct acc"
  shows "\<exists>labels. availability_loop runs acc = Inr labels \<and> distinct labels
           \<and> set labels = set acc \<union>
                (\<lambda>run. availability_message (map lower_char (availability_code run))) ` set runs"
  using assms
proof (induction runs arbitrary: acc)
  case Nil
  then show ?case by simp
next
  case (Cons run runs)
  from Cons.prems obtain d where run: "run = JDict d"
    by (cases run) simp_all
  from Cons.prems run have av: "dict_get d ''availability'' JNull = JNull
      \<or> is_string (dict_get d ''availability'' JNull)"
    by simp
  have step: "py_lower (py_or (dict_get d ''availability'' JNull) (JStr [])) =
               Inr (map lower_char (availability_code run))"
    using av by (cases "dict_get d ''availability'' JNull") (auto simp: run py_or_def)
  have "distinct (List.insert (availability_message (map lower_char (availability_code run))) acc)"
    using Cons.prems by simp
  from Cons.IH [OF _ this] Cons.prems(1)
  obtain labels where
    "availability_loop runs (List.insert (availability_message (map lower_char (availability_code run))) acc)
       = Inr labels"
    "distinct labels"
    "set labels = set (List.insert (availability_message (map lower_char (availability_code run))) acc)
       \<union> (\<lambda>run. availability_message (map lower_char (availability_code run))) ` set runs"
    by auto
  then show ?case
    using step by (auto simp: run simp del: availability_code.simps)
qed

lemma availability_labels:
  assumes "availability_shaped act course"
  shows "\<exists>labels. get_course_availability act course = Inr (JList (map JStr labels))
           \<and> distinct labels
           \<and> set labels =
               (\<lambda>run. let code = map lower_char (availability_code run) in
                        if code = ''current'' then ''Available Now''
                        else if code = ''upcoming'' then ''Upcoming''
                        else ''Archived'')
               ` {run \<in> set (course_runs_of course). act run}"
proof -
  from assms obtain d where c: "course = JDict d"
    by (cases course) (simp_all add: availability_shaped_def)
  let ?runs = "course_runs_of course"
  have it: "py_iter (py_or (dict_get d ''course_runs'' JNull) (JList [])) = Inr ?runs"
  proof (cases "map_of d ''course_runs''")
    case None
    then show ?thesis by (simp add: c dict_get_def py_or_def)
  next
    case (Some v)
    with assms c have "v = JNull \<or> is_sequence v"
      by (simp add: availability_shaped_def dict_get_def)
    with Some show ?thesis
      by (cases v) (auto simp: c dict_get_def py_or_def)
  qed
  from assms have "list_all (\<lambda>run. is_mapping run
            \<and> (field run ''availability'' = JNull \<or> is_string (field run ''availability'')))
          (filter act ?runs)"
    by (simp add: availability_shaped_def list_all_iff)
  from availability_loop_labels [OF this, of "[]"]
  obtain labels where l: "availability_loop (filter act ?runs) [] = Inr labels" "distinct labels"
    "set labels = (\<lambda>run. availability_message (map lower_char (availability_code run)))
                    ` set (filter act ?runs)"
    by auto
  have "get_course_availability act course = Inr (JList (map JStr labels))"
    using it l(1) by (simp add: get_course_availability_def c)
  moreover have "set labels = (\<lambda>run. let code = map lower_char (availability_code run) in
                        if code = ''current'' then ''Available Now''
                        else if code = ''upcoming'' then ''Upcoming''
                        else ''Archived'')
               ` {run \<in> set ?runs. act run}"
    unfolding l(3) by (simp add: availability_message_def Let_def del: availability_code.simps)
  ultimately show ?thesis using l(2) by blast
qed

text \<open>
  C8. For a course record whose active runs are mappings with a string (or no) availability
  code, \<open>get_course_availability\<close> returns a duplicate-free list of labels: the labels of
  the active runs, where the lowercased code \<open>current\<close> gives \<open>Available Now\<close>, \<open>upcoming\<close>
  gives \<open>Upcoming\<close>, and any other or missing code gives \<open>Archived\<close>. Runs that are not
  active contribute nothing.
\<close>

theorem get_course_availability_labels:
  assumes "availability_shaped act course"
  shows "\<exists>labels. get_course_availability act course = Inr (JList (map JStr labels))
           \<and> distinct labels
           \<and> set labels =
               (\<lambda>run. let code = map lower_char (availability_code run) in
                        if code = ''current'' then ''Available Now''
                        else if code = ''upcoming'' then ''Upcoming''
                        else ''Archived'')
               ` {run \<in> set (course_runs_of course). act run}"
  using assms by (rule availability_labels)

theorem get_course_availability_labels_witness:
  "availability_shaped published_run_active example_availability_course
   \<and> (\<exists>labels. get_course_availability published_run_active example_availability_course
                  = Inr (JList (map JStr labels))
        \<and> distinct labels \<and> set labels = {''Available Now'', ''Archived''})"
proof -
  have h: "availability_shaped published_run_active example_availability_course"
    by code_simp
  have s: "(\<lambda>run. let code = map lower_char (availability_code run) in
                        if code = ''current'' then ''Available Now''
                        else if code = ''upcoming'' then ''Upcoming''
                        else ''Archived'')
               ` {run \<in> set (course_runs_of example_availability_course). published_run_active run}
           = {''Available Now'', ''Archived''}"
    by code_simp
  from get_course_availability_labels [OF h] h show ?thesis
    unfolding s by blast
qed

lemma py_eq_JStr [simp]: "py_eq y (JStr s) = (y = JStr s)"
  by (cases y) auto

lemma set_add_JStr:
  "set_add (JStr s) acc = Inr (if JStr s \<in> set acc then acc else JStr s # acc)"
  by (simp add: set_add_def list_ex_iff)

lemma subjects_loop_represents:
  "list_all2 represents reps names \<Longrightarrow> list_all (\<lambda>s. s \<noteq> []) names \<Longrightarrow>
     subjects_loop reps acc = subjects_loop (map JStr names) acc"
proof (induction reps names arbitrary: acc rule: list_all2_induct)
  case Nil
  show ?case by simp
next
  case (Cons r reps s names)
  from Cons.prems have ne: "s \<noteq> []" and rest: "list_all (\<lambda>s. s \<noteq> []) names"
    by simp_all
  have "subjects_loop (r # reps) acc =
          err_bind (set_add (JStr s) acc) (\<lambda>names. subjects_loop reps names)"
    using Cons.hyps(1) ne by (cases r) (simp_all add: py_get_def)
  also have "\<dots> = subjects_loop (map JStr (s # names)) acc"
    using Cons.IH [OF rest] by (simp add: set_add_JStr)
  finally show ?case .
qed

lemma subjects_loop_strings:
  "distinct acc \<Longrightarrow>
     \<exists>out. subjects_loop (map JStr names) acc = Inr out \<and> distinct out
        \<and> set out = set acc \<union> JStr ` set names"
proof (induction names arbitrary: acc)
  case Nil
  then show ?case by simp
next
  case (Cons s names)
  let ?acc = "if JStr s \<in> set acc then acc else JStr s # acc"
  from Cons.prems have "distinct ?acc" by simp
  from Cons.IH [OF this] obtain out where
    "subjects_loop (map JStr names) ?acc = Inr out" "distinct out"
    "set out = set ?acc \<union> JStr ` set names"
    by blast
  then show ?case
    by (auto simp: set_add_JStr)
qed

text \<open>
  C9 (as amended). For subject names that are not empty, \<open>get_course_subjects\<close> gives the
  same result whichever representation each subject has, a plain string or a mapping with
  that name: the result for any mix of representations is the result for the plain strings,
  a duplicate-free list of exactly the names. In particular \<open>[s]\<close> and \<open>[{'name': s}]\<close>
  project to the same output for every non-empty \<open>s\<close>.
\<close>

theorem get_course_subjects_format_agnostic:
  assumes "list_all2 represents reps names" and "list_all (\<lambda>s. s \<noteq> []) names"
  shows "get_course_subjects (JDict ((''subjects'', JList reps) # other)) =
           get_course_subjects (JDict ((''subjects'', JList (map JStr names)) # other))
       \<and> (\<exists>out. get_course_subjects (JDict ((''subjects'', JList reps) # other)) = Inr (JList out)
              \<and> distinct out \<and> set out = JStr ` set names)"
proof -
  have eq: "subjects_loop reps [] = subjects_loop (map JStr names) []"
    using assms by (rule subjects_loop_represents)
  obtain out where out: "subjects_loop (map JStr names) [] = Inr out" "distinct out"
    "set out = JStr ` set names"
    using subjects_loop_strings [of "[]" names] by auto
  have l: "list_all2 represents reps names \<Longrightarrow> length reps = length names"
    by (rule list_all2_lengthD)
  have a: "get_course_subjects (JDict ((''subjects'', JList reps) # other)) = Inr (JList out)"
    using eq out(1) l [OF assms(1)]
    by (cases reps) (simp_all add: get_course_subjects_def dict_get_def py_or_def)
  have b: "get_course_subjects (JDict ((''subjects'', JList (map JStr names)) # other)) = Inr (JList out)"
    using out(1) by (cases names) (simp_all add: get_course_subjects_def dict_get_def py_or_def)
  from a b out show ?thesis by simp
qed

theorem get_course_subjects_format_agnostic_witness:
  "list_all2 represents [JDict [(''name'', JStr ''Communication'')]] [''Communication'']
   \<and> list_all (\<lambda>s. s \<noteq> []) [''Communication'']
   \<and> get_course_subjects (JDict [(''subjects'', JList [JDict [(''name'', JStr ''Communication'')]])])
       = get_course_subjects (JDict [(''subjects'', JList [JStr ''Communication''])])
   \<and> get_course_subjects (JDict [(''subjects'', JList [JStr ''Communication''])])
       = Inr (JList [JStr ''Communication''])"
proof -
  have h1: "list_all2 represents [JDict [(''name'', JStr ''Communication'')]] [''Communication'']"
    by (simp add: dict_get_def)
  have h2: "list_all (\<lambda>s. s \<noteq> []) [''Communication'']"
    by simp
  have v: "get_course_subjects (JDict [(''subjects'', JList [JStr ''Communication''])])
       = Inr (JList [JStr ''Communication''])"
    by code_simp
  from get_course_subjects_format_agnostic [OF h1 h2, of "[]"] h1 h2 v
  show ?thesis by simp
qed

text \<open>The empty name: kept when it is given as a string, dropped when it is given in a
  mapping.\<close>

theorem get_course_subjects_empty_name:
  "get_course_subjects (JDict [(''subjects'', JList [JStr []])]) = Inr (JList [JStr []])
   \<and> get_course_subjects (JDict [(''subjects'', JList [JDict [(''name'', JStr [])]])]) = Inr (JList [])"
  by code_simp

lemma algolia_object_from_course_st_store:
  "\<exists>cell. fst (algolia_object_from_course_st act s course algolia_fields) = s @ [cell]"
  by (auto simp: algolia_object_from_course_st_def deepcopy_def split: sum.splits)

text \<open>
  C10. \<open>_algolia_object_from_course\<close> leaves its argument as it was: whatever the call
  returns or raises, the cell of the course it was given holds the same value afterwards,
  and so does every other cell that existed before the call. The derived fields are written
  to the copy only.
\<close>

theorem algolia_object_from_course_frame:
  assumes "course < length s"
  shows "fst (algolia_object_from_course_st act s course algolia_fields) ! course = s ! course
       \<and> take (length s) (fst (algolia_object_from_course_st act s course algolia_fields)) = s"
proof -
  obtain cell where "fst (algolia_object_from_course_st act s course algolia_fields) = s @ [cell]"
    using algolia_object_from_course_st_store by blast
  with assms show ?thesis
    by (simp add: nth_append)
qed

theorem algolia_object_from_course_frame_witness:
  "(0::nat) < length [json_metadata example_course]
   \<and> fst (algolia_object_from_course_st published_run_active [json_metadata example_course] 0
            [''partners'', ''availability'']) ! 0 = json_metadata example_course
   \<and> snd (algolia_object_from_course_st published_run_active [json_metadata example_course] 0
            [''partners'', ''availability''])
       = Inr (JDict [(''partners'', JList [JDict [(''name'', JStr ''edX''), (''logo_image_url'', JNull)]]),
                     (''availability'', JList [JStr ''Archived''])])"
proof -
  have h: "(0::nat) < length [json_metadata example_course]"
    by simp
  have v: "snd (algolia_object_from_course_st published_run_active [json_metadata example_course] 0
            [''partners'', ''availability''])
       = Inr (JDict [(''partners'', JList [JDict [(''name'', JStr ''edX''), (''logo_image_url'', JNull)]]),
                     (''availability'', JList [JStr ''Archived''])])"
    by code_simp
  from algolia_object_from_course_frame [OF h, of published_run_active "[''partners'', ''availability'']"] v
  show ?thesis by simp
qed

lemma iter_or_elements:
  "v = JNull \<or> is_sequence v \<Longrightarrow> py_iter (py_or v (JList [])) = Inr (elements v)"
  by (cases v) (auto simp: py_or_def)

lemma mappings_or_null_elements:
  "mappings_or_null v \<Longrightarrow> (v = JNull \<or> is_sequence v) \<and> list_all is_mapping (elements v)"
  by (cases v) simp_all

lemma set_add_returns: "hashable v \<Longrightarrow> \<exists>acc'. set_add v acc = Inr acc'"
  by (simp add: set_add_def)

lemma partners_loop_returns:
  "list_all is_mapping owners \<Longrightarrow> \<exists>partners. partners_loop owners = Inr partners"
proof (induction owners)
  case Nil
  show ?case by simp
next
  case (Cons owner owners)
  then obtain d ps where "owner = JDict d" "partners_loop owners = Inr ps"
    by (cases owner) auto
  then show ?case by simp
qed

lemma program_values_returns:
  "list_all (\<lambda>p. is_mapping p \<and> settable (field p fld)) programs \<Longrightarrow>
     \<exists>vs. program_values fld programs acc = Inr vs"
proof (induction programs arbitrary: acc)
  case Nil
  show ?case by simp
next
  case (Cons p programs)
  then obtain d where p: "p = JDict d"
    by (cases p) auto
  show ?case
  proof (cases "truthy (dict_get d fld JNull)")
    case True
    with Cons.prems p have "hashable (dict_get d fld JNull)"
      by (simp add: settable_def)
    then obtain acc' where "set_add (dict_get d fld JNull) acc = Inr acc'"
      using set_add_returns by blast
    with Cons True p show ?thesis by simp
  next
    case False
    with Cons p show ?thesis by simp
  qed
qed

lemma subjects_loop_returns:
  "list_all subject_shaped subjects \<Longrightarrow> \<exists>names. subjects_loop subjects acc = Inr names"
proof (induction subjects arbitrary: acc)
  case Nil
  show ?case by simp
next
  case (Cons subject subjects)
  from Cons.prems have rest: "list_all subject_shaped subjects"
    by simp
  show ?case
  proof (cases subject)
    case (JStr s)
    obtain acc' where "set_add (JStr s) acc = Inr acc'"
      using set_add_returns [of "JStr s"] by auto
    with Cons.IH [OF rest] JStr show ?thesis by simp
  next
    case (JDict d)
    show ?thesis
    proof (cases "truthy (dict_get d ''name'' JNull)")
      case True
      with Cons.prems JDict have "hashable (dict_get d ''name'' JNull)"
        by (simp add: settable_def)
      then obtain acc' where "set_add (dict_get d ''name'' JNull) acc = Inr acc'"
        using set_add_returns by blast
      with Cons.IH [OF rest] True JDict show ?thesis by simp
    next
      case False
      with Cons.IH [OF rest] JDict show ?thesis by simp
    qed
  qed (use Cons.prems in simp_all)
qed

lemma subjects_loop_skips_nameless:
  "dict_get d ''name'' JNull = JNull \<Longrightarrow> subjects_loop (JDict d # rest) acc = subjects_loop rest acc"
  by simp

lemma py_set_returns:
  "list_all hashable xs \<Longrightarrow> \<exists>s. py_set xs acc = Inr s"
proof (induction xs arbitrary: acc)
  case Nil
  show ?case by simp
next
  case (Cons x xs)
  then obtain acc' where "set_add x acc = Inr acc'"
    using set_add_returns [of x] by auto
  with Cons show ?case by simp
qed

lemma get_course_language_returns:
  assumes "partition_shaped course"
  shows "\<exists>v. get_course_language course = Inr v"
proof -
  from assms obtain d where c: "course = JDict d"
    by (cases course) (simp_all add: partition_shaped_def)
  show ?thesis
  proof (cases "advertised_run course")
    case None
    with get_course_run_by_uuid_shaped [OF assms] show ?thesis
      by (simp add: get_course_language_def c)
  next
    case (Some run)
    with advertised_run_mapping [OF assms] obtain rd where "run = JDict rd"
      by (cases run) auto
    with Some get_course_run_by_uuid_shaped [OF assms] show ?thesis
      by (simp add: get_course_language_def c)
  qed
qed

lemma get_advertised_course_run_returns:
  assumes "partition_shaped course"
  shows "\<exists>v. get_advertised_course_run course = Inr v"
proof -
  from assms obtain d where c: "course = JDict d"
    by (cases course) (simp_all add: partition_shaped_def)
  show ?thesis
  proof (cases "advertised_run course")
    case None
    with get_course_run_by_uuid_shaped [OF assms] show ?thesis
      by (simp add: get_advertised_course_run_def c)
  next
    case (Some run)
    with advertised_run_mapping [OF assms] obtain rd where "run = JDict rd"
      by (cases run) auto
    with Some get_course_run_by_uuid_shaped [OF assms] show ?thesis
      by (simp add: get_advertised_course_run_def c)
  qed
qed

lemma derived_fields_returns:
  assumes "projection_shaped act course"
  shows "\<exists>other. derived_fields act course = Inr other"
proof -
  from assms have ps: "partition_shaped course" and av: "availability_shaped act course"
    by (simp_all add: projection_shaped_def)
  from ps obtain d where c: "course = JDict d"
    by (cases course) (simp_all add: partition_shaped_def)
  obtain language where 1: "get_course_language course = Inr language"
    using get_course_language_returns [OF ps] by blast
  obtain availability where 2: "get_course_availability act course = Inr availability"
    using availability_labels [OF av] by blast
  have "list_all is_mapping (elements (dict_get d ''owners'' JNull))"
    and io: "py_iter (py_or (dict_get d ''owners'' JNull) (JList [])) = Inr (elements (dict_get d ''owners'' JNull))"
    using assms mappings_or_null_elements [of "dict_get d ''owners'' JNull"] iter_or_elements
    by (simp_all add: projection_shaped_def c)
  then obtain partners where 3: "get_course_partners course = Inr partners"
    using partners_loop_returns [of "elements (dict_get d ''owners'' JNull)"]
    by (auto simp: get_course_partners_def c)
  have pm: "list_all is_mapping (elements (dict_get d ''programs'' JNull))"
    and ip: "py_iter (py_or (dict_get d ''programs'' JNull) (JList [])) = Inr (elements (dict_get d ''programs'' JNull))"
    using assms mappings_or_null_elements [of "dict_get d ''programs'' JNull"] iter_or_elements
    by (simp_all add: projection_shaped_def c)
  have pf: "list_all (\<lambda>p. settable (field p ''type'') \<and> settable (field p ''title''))
              (elements (dict_get d ''programs'' JNull))"
    using assms by (simp add: projection_shaped_def c)
  have "list_all (\<lambda>p. is_mapping p \<and> settable (field p ''type'')) (elements (dict_get d ''programs'' JNull))"
    using pm pf by (simp add: list_all_iff)
  then obtain programs where 4: "get_course_program_types course = Inr programs"
    using program_values_returns [of "''type''" "elements (dict_get d ''programs'' JNull)" "[]"] ip
    by (auto simp: get_course_program_types_def get_course_program_field_def c)
  have "list_all (\<lambda>p. is_mapping p \<and> settable (field p ''title'')) (elements (dict_get d ''programs'' JNull))"
    using pm pf by (simp add: list_all_iff)
  then obtain program_titles where 5: "get_course_program_titles course = Inr program_titles"
    using program_values_returns [of "''title''" "elements (dict_get d ''programs'' JNull)" "[]"] ip
    by (auto simp: get_course_program_titles_def get_course_program_field_def c)
  have "list_all subject_shaped (elements (dict_get d ''subjects'' JNull))"
    and "py_iter (py_or (dict_get d ''subjects'' JNull) (JList [])) = Inr (elements (dict_get d ''subjects'' JNull))"
    using assms iter_or_elements by (simp_all add: projection_shaped_def c)
  then obtain subjects where 6: "get_course_subjects course = Inr subjects"
    using subjects_loop_returns [of "elements (dict_get d ''subjects'' JNull)" "[]"]
    by (auto simp: get_course_subjects_def c)
  have 7: "get_course_card_image_url course = Inr (dict_get d ''image_url'' JNull)"
    by (simp add: get_course_card_image_url_def c)
  obtain advertised_course_run where 8: "get_advertised_course_run course = Inr advertised_course_run"
    using get_advertised_course_run_returns [OF ps] by blast
  have "list_all hashable (elements (dict_get d ''skill_names'' JNull))"
    and "py_iter (py_or (dict_get d ''skill_names'' JNull) (JList [])) = Inr (elements (dict_get d ''skill_names'' JNull))"
    using assms iter_or_elements by (simp_all add: projection_shaped_def c)
  then obtain skill_names where 9: "get_course_skill_names course = Inr skill_names"
    using py_set_returns [of "elements (dict_get d ''skill_names'' JNull)" "[]"]
    by (auto simp: get_course_skill_names_def c)
  have "py_iter (py_or (dict_get d ''skills'' JNull) (JList [])) = Inr (elements (dict_get d ''skills'' JNull))"
    using assms iter_or_elements by (simp_all add: projection_shaped_def c)
  then have 10: "get_course_skills course = Inr (JList (elements (dict_get d ''skills'' JNull)))"
    by (simp add: get_course_skills_def c)
  show ?thesis
    by (simp add: derived_fields_def 1 2 3 4 5 6 7 8 9 10)
qed

lemma project_fields_returns:
  "\<exists>obj. project_fields (JDict d) algolia_fields acc = Inr obj"
  by (induction algolia_fields arbitrary: acc) simp_all

lemma algolia_object_from_course_returns:
  assumes "projection_shaped act course"
  shows "\<exists>obj. algolia_object_from_course act course algolia_fields = Inr obj"
proof -
  from assms obtain d where c: "course = JDict d"
    by (cases course) (simp_all add: projection_shaped_def partition_shaped_def)
  obtain other where o: "derived_fields act course = Inr other"
    using derived_fields_returns [OF assms] by blast
  obtain obj where "project_fields (JDict (dict_update d other)) algolia_fields [] = Inr obj"
    using project_fields_returns by blast
  then show ?thesis
    using o by (simp add: algolia_object_from_course_def algolia_object_from_course_st_def
        deepcopy_def c)
qed

lemma objects_from_courses_returns:
  "list_all (projection_shaped act) courses \<Longrightarrow>
     \<exists>objs. objects_from_courses act courses algolia_fields = Inr objs \<and> length objs = length courses"
proof (induction courses)
  case Nil
  show ?case by simp
next
  case (Cons course courses)
  then obtain obj objs where "algolia_object_from_course act course algolia_fields = Inr obj"
    "objects_from_courses act courses algolia_fields = Inr objs" "length objs = length courses"
    using algolia_object_from_course_returns [of act course algolia_fields] by auto
  then show ?case by simp
qed

text \<open>
  C7 (as amended). With the run-activity predicate a total predicate, partitioning and
  projection do not raise, and every record of the batch is processed (the partition
  returns, and the projection returns one object per record), on batches whose records all
  have this shape: the record is a mapping; \<open>course_runs\<close> is missing or a sequence of
  mappings, and the \<open>availability\<close> of every active run is missing, null or a string;
  \<open>owners\<close> is missing, null or a sequence of mappings; \<open>programs\<close> is missing, null or a
  sequence of mappings whose \<open>type\<close> and \<open>title\<close> are missing or anything but a non-empty
  list or a non-empty mapping; \<open>subjects\<close> is missing, null or a sequence of strings and of
  mappings whose \<open>name\<close> is missing or anything but a non-empty list or a non-empty mapping;
  \<open>skill_names\<close> is missing, null or a sequence of values that are neither lists nor
  mappings; \<open>skills\<close> is missing, null or a sequence. On such a batch a record with no
  course runs is classified non-indexable, and a subject mapping without a name is
  skipped.
\<close>

theorem partition_and_projection_total_on_shaped:
  assumes "list_all (\<lambda>c. projection_shaped act (json_metadata c)) courses"
  shows "(\<exists>indexable nonindexable.
            partition_course_keys_for_indexing act courses = Inr (indexable, nonindexable))
       \<and> (\<exists>objs. create_algolia_objects_from_courses act (map json_metadata courses) algolia_fields
                    = Inr objs \<and> length objs = length courses)
       \<and> (\<forall>c \<in> set courses. course_runs_of (json_metadata c) = [] \<longrightarrow>
             should_index_course act c = Inr False)
       \<and> (\<forall>d rest other. dict_get d ''name'' JNull = JNull \<longrightarrow>
             get_course_subjects (JDict ((''subjects'', JList (JDict d # rest)) # other)) =
             get_course_subjects (JDict ((''subjects'', JList rest) # other)))"
proof -
  have sh: "\<forall>c \<in> set courses. partition_shaped (json_metadata c)"
    using assms by (simp add: list_all_iff projection_shaped_def)
  then have "list_all (\<lambda>c. \<exists>b. should_index_course act c = Inr b) courses"
    using should_index_course_value by (auto simp: list_all_iff)
  then have 1: "\<exists>indexable nonindexable.
            partition_course_keys_for_indexing act courses = Inr (indexable, nonindexable)"
    unfolding partition_course_keys_for_indexing_def by (rule partition_loop_returns)
  have "list_all (projection_shaped act) (map json_metadata courses)"
    using assms by (simp add: list_all_iff)
  then have 2: "\<exists>objs. create_algolia_objects_from_courses act (map json_metadata courses) algolia_fields
                    = Inr objs \<and> length objs = length courses"
    using objects_from_courses_returns [of act "map json_metadata courses"]
    by (simp add: create_algolia_objects_from_courses_def)
  have 3: "\<forall>c \<in> set courses. course_runs_of (json_metadata c) = [] \<longrightarrow>
             should_index_course act c = Inr False"
    using sh should_index_course_value by (simp add: advertised_run_def)
  have 4: "\<forall>d rest other. dict_get d ''name'' JNull = JNull \<longrightarrow>
             get_course_subjects (JDict ((''subjects'', JList (JDict d # rest)) # other)) =
             get_course_subjects (JDict ((''subjects'', JList rest) # other))"
  proof (intro allI impI)
    fix d rest other
    assume "dict_get d ''name'' JNull = JNull"
    then show "get_course_subjects (JDict ((''subjects'', JList (JDict d # rest)) # other)) =
             get_course_subjects (JDict ((''subjects'', JList rest) # other))"
      by (cases rest) (simp_all add: get_course_subjects_def dict_get_def py_or_def)
  qed
  from 1 2 3 4 show ?thesis by blast
qed

theorem partition_and_projection_total_on_shaped_witness:
  "list_all (\<lambda>c. projection_shaped published_run_active (json_metadata c))
     [example_course, example_course_sparse]
   \<and> partition_course_keys_for_indexing published_run_active [example_course, example_course_sparse]
       = Inr ([''fakeX''], [''sparseX''])
   \<and> (\<exists>objs. create_algolia_objects_from_courses published_run_active
                (map json_metadata [example_course, example_course_sparse]) (Some [''subjects''])
              = Inr objs \<and> length objs = 2)
   \<and> should_index_course published_run_active example_course_sparse = Inr False"
proof -
  let ?cs = "[example_course, example_course_sparse]"
  have h: "list_all (\<lambda>c. projection_shaped published_run_active (json_metadata c)) ?cs"
    by code_simp
  have p: "partition_course_keys_for_indexing published_run_active ?cs = Inr ([''fakeX''], [''sparseX''])"
    by code_simp
  have r: "course_runs_of (json_metadata example_course_sparse) = []"
    by code_simp
  from partition_and_projection_total_on_shaped [OF h, of "Some [''subjects'']"] h p r
  show ?thesis by (simp add: numeral_2_eq_2)
qed

text \<open>A subject that is a number makes the projection of the whole batch raise, and a course
  run that is a string makes the partition of the whole batch raise. So do, in the
  projection, an active run whose availability is a number, a program whose title is a
  non-empty list, and a subject mapping whose name is a non-empty list.\<close>

theorem partition_and_projection_raise_on_malformed:
  "create_algolia_objects_from_courses published_run_active
     (map json_metadata [example_course, example_course_bad_subject]) (Some [''key'', ''subjects''])
     = Inl AttributeError
   \<and> partition_course_keys_for_indexing published_run_active [example_course, example_course_bad_run]
     = Inl AttributeError
   \<and> create_algolia_objects_from_courses published_run_active
     (map json_metadata [example_course, example_course_bad_availability]) (Some [''key''])
     = Inl AttributeError
   \<and> create_algolia_objects_from_courses published_run_active
     (map json_metadata [example_course, example_course_bad_title]) (Some [''key''])
     = Inl TypeError
   \<and> create_algolia_objects_from_courses published_run_active
     (map json_metadata [example_course, example_course_bad_name]) (Some [''key''])
     = Inl TypeError"
  by code_simp

lemma chunks_Nil [simp]: "chunks B [] = []"
  by (simp add: chunks.simps)

lemma chunks_step: "0 < B \<Longrightarrow> xs \<noteq> [] \<Longrightarrow> chunks B xs = take B xs # chunks B (drop B xs)"
  by (subst chunks.simps) simp

lemma chunks_concat: "0 < B \<Longrightarrow> concat (chunks B xs) = xs"
proof (induction B xs rule: chunks.induct)
  case (1 B xs)
  then show ?case
    by (cases "xs = []") (simp_all add: chunks_step)
qed

lemma chunks_length: "0 < B \<Longrightarrow> length (chunks B xs) = (length xs + B - 1) div B"
proof (induction B xs rule: chunks.induct)
  case (1 B xs)
  show ?case
  proof (cases "xs = []")
    case True
    with "1.prems" show ?thesis by simp
  next
    case False
    with "1.prems" have ih: "length (chunks B (drop B xs)) = (length (drop B xs) + B - 1) div B"
      using "1.IH" by simp
    have step: "length (chunks B xs) = Suc (length (chunks B (drop B xs)))"
      using False "1.prems" by (simp add: chunks_step)
    show ?thesis
    proof (cases "length xs \<le> B")
      case True
      with False "1.prems" have "B * 1 \<le> length xs + B - 1" "length xs + B - 1 < B * Suc 1"
        by (cases xs; simp)+
      then have "(length xs + B - 1) div B = 1"
        by (rule div_nat_eqI)
      with True ih step show ?thesis by simp
    next
      case gt: False
      then have "length xs + B - 1 = (length xs - B + B - 1) + B"
        using "1.prems" by simp
      then have "(length xs + B - 1) div B = Suc ((length xs - B + B - 1) div B)"
        using "1.prems" by (metis Suc_eq_plus1 div_add_self2 less_numeral_extra(3))
      with ih step show ?thesis by simp
    qed
  qed
qed

lemma chunks_bounds: "0 < B \<Longrightarrow> c \<in> set (chunks B xs) \<Longrightarrow> 0 < length c \<and> length c \<le> B"
proof (induction B xs rule: chunks.induct)
  case (1 B xs)
  show ?case
  proof (cases "xs = []")
    case True
    with "1.prems" show ?thesis by simp
  next
    case False
    with "1.prems" have "c = take B xs \<or> c \<in> set (chunks B (drop B xs))"
      by (simp add: chunks_step)
    then show ?thesis
    proof
      assume "c = take B xs"
      with False "1.prems" show ?thesis by simp
    next
      assume "c \<in> set (chunks B (drop B xs))"
      with "1.IH" False "1.prems" show ?thesis by simp
    qed
  qed
qed

lemma batch_object_fields:
  "objectID (batch_object uuid k K i batch) = fanout_object_id uuid K i"
  "key (batch_object uuid k K i batch) = k"
  "association_field K (batch_object uuid k K i batch) = Some batch"
  "populated_fields (batch_object uuid k K i batch) = 1"
  by (cases K; simp add: populated_fields_def)+

lemma batched_objects_length:
  "length (batched_objects B uuid k K uuids) = length (chunks B (sort uuids))"
  by (simp add: batched_objects_def)

lemma batched_objects_nth:
  "i < length (chunks B (sort uuids)) \<Longrightarrow>
     batched_objects B uuid k K uuids ! i = batch_object uuid k K i (chunks B (sort uuids) ! i)"
  by (simp add: batched_objects_def nth_enumerate_eq)

lemma batched_objects_batches:
  "map (batch_of K) (batched_objects B uuid k K uuids) = chunks B (sort uuids)"
proof -
  have "batch_of K \<circ> (\<lambda>(i, batch). batch_object uuid k K i batch) = snd"
    by (auto simp: fun_eq_iff batch_of_def batch_object_fields)
  then show ?thesis
    by (simp add: batched_objects_def)
qed

text \<open>
  C6. For every course and association kind and every batch size \<open>B > 0\<close>, the fan-out sorts
  the kind's uuid list, cuts it into consecutive groups of at most \<open>B\<close>, and emits one object
  per group, \<open>ceil(n/B)\<close> objects for \<open>n\<close> uuids: the batches of the objects, in order, make up
  the sorted list, no batch is empty or longer than \<open>B\<close>, the object at position \<open>i\<close> has batch
  index \<open>i\<close>, and a kind with no uuids gets no object.
\<close>

theorem batched_objects_count:
  assumes "0 < B"
  shows "length (batched_objects B uuid k K uuids) = (length uuids + B - 1) div B
       \<and> concat (map (batch_of K) (batched_objects B uuid k K uuids)) = sort uuids
       \<and> (\<forall>i < length (batched_objects B uuid k K uuids).
             objectID (batched_objects B uuid k K uuids ! i) = fanout_object_id uuid K i
           \<and> 0 < length (batch_of K (batched_objects B uuid k K uuids ! i))
           \<and> length (batch_of K (batched_objects B uuid k K uuids ! i)) \<le> B)
       \<and> (uuids = [] \<longrightarrow> batched_objects B uuid k K uuids = [])"
proof -
  have 1: "length (batched_objects B uuid k K uuids) = (length uuids + B - 1) div B"
    using chunks_length [OF assms, of "sort uuids"] by (simp add: batched_objects_length)
  have 2: "concat (map (batch_of K) (batched_objects B uuid k K uuids)) = sort uuids"
    using chunks_concat [OF assms] by (simp add: batched_objects_batches)
  have 3: "\<forall>i < length (batched_objects B uuid k K uuids).
             objectID (batched_objects B uuid k K uuids ! i) = fanout_object_id uuid K i
           \<and> 0 < length (batch_of K (batched_objects B uuid k K uuids ! i))
           \<and> length (batch_of K (batched_objects B uuid k K uuids ! i)) \<le> B"
  proof (intro allI impI)
    fix i assume "i < length (batched_objects B uuid k K uuids)"
    then have i: "i < length (chunks B (sort uuids))"
      by (simp add: batched_objects_length)
    then have "chunks B (sort uuids) ! i \<in> set (chunks B (sort uuids))"
      by simp
    from chunks_bounds [OF assms this] i
    show "objectID (batched_objects B uuid k K uuids ! i) = fanout_object_id uuid K i
           \<and> 0 < length (batch_of K (batched_objects B uuid k K uuids ! i))
           \<and> length (batch_of K (batched_objects B uuid k K uuids ! i)) \<le> B"
      by (simp add: batched_objects_nth batch_object_fields batch_of_def)
  qed
  have 4: "uuids = [] \<longrightarrow> batched_objects B uuid k K uuids = []"
    by (simp add: batched_objects_def)
  from 1 2 3 4 show ?thesis by blast
qed

theorem batched_objects_count_witness:
  "(0::nat) < 1 \<and> 0 < ALGOLIA_UUID_BATCH_SIZE
   \<and> length (batched_objects 1 ''u'' ''fakeX'' Catalog [''c'', ''a'', ''b'']) = 3
   \<and> map objectID (batched_objects 1 ''u'' ''fakeX'' Catalog [''c'', ''a'', ''b''])
       = [''course-u-catalog-uuids-0'', ''course-u-catalog-uuids-1'', ''course-u-catalog-uuids-2'']
   \<and> map (batch_of Catalog) (batched_objects 1 ''u'' ''fakeX'' Catalog [''c'', ''a'', ''b''])
       = [[''a''], [''b''], [''c'']]
   \<and> length (batched_objects ALGOLIA_UUID_BATCH_SIZE ''u'' ''fakeX'' Catalog [''c'', ''a'', ''b'']) = 1
   \<and> map (batch_of Catalog) (batched_objects ALGOLIA_UUID_BATCH_SIZE ''u'' ''fakeX'' Catalog [''c'', ''a'', ''b''])
       = [[''a'', ''b'', ''c'']]
   \<and> batched_objects ALGOLIA_UUID_BATCH_SIZE ''u'' ''fakeX'' Customer [] = []"
proof -
  have a: "map objectID (batched_objects 1 ''u'' ''fakeX'' Catalog [''c'', ''a'', ''b''])
       = [''course-u-catalog-uuids-0'', ''course-u-catalog-uuids-1'', ''course-u-catalog-uuids-2'']"
    by code_simp
  have b: "map (batch_of Catalog) (batched_objects 1 ''u'' ''fakeX'' Catalog [''c'', ''a'', ''b''])
       = [[''a''], [''b''], [''c'']]"
    by code_simp
  have c: "map (batch_of Catalog) (batched_objects ALGOLIA_UUID_BATCH_SIZE ''u'' ''fakeX'' Catalog [''c'', ''a'', ''b''])
       = [[''a'', ''b'', ''c'']]"
    by code_simp
  have h1: "(0::nat) < 1" and h100: "0 < ALGOLIA_UUID_BATCH_SIZE"
    by (simp_all add: ALGOLIA_UUID_BATCH_SIZE_def)
  from batched_objects_count [OF h1, of "''u''" "''fakeX''" Catalog "[''c'', ''a'', ''b'']"]
    batched_objects_count [OF h100, of "''u''" "''fakeX''" Catalog "[''c'', ''a'', ''b'']"]
    batched_objects_count [OF h100, of "''u''" "''fakeX''" Customer "[]"]
    a b c
  show ?thesis by (simp add: ALGOLIA_UUID_BATCH_SIZE_def)
qed

lemma fan_out_members:
  "obj \<in> set (fan_out B uuid k assoc) \<Longrightarrow>
     \<exists>K. obj \<in> set (batched_objects B uuid k K (uuids_of K assoc))"
proof -
  assume "obj \<in> set (fan_out B uuid k assoc)"
  then consider "obj \<in> set (batched_objects B uuid k Catalog (uuids_of Catalog assoc))"
    | "obj \<in> set (batched_objects B uuid k Customer (uuids_of Customer assoc))"
    | "obj \<in> set (batched_objects B uuid k CatalogQuery (uuids_of CatalogQuery assoc))"
    by (auto simp: fan_out_def)
  then show ?thesis by cases blast+
qed


text \<open>
  C4 (as amended). Every object of the batched fan-out of a course is the object of some
  association kind \<open>K\<close> and batch index \<open>i\<close>; its identifier is exactly
  \<open>course-{uuid}-{K}-uuids-{i}\<close> where \<open>uuid\<close> is the uuid of the course record itself (the
  identifier \<open>get_algolia_object_id\<close> gives that uuid, followed by the kind and the index); it
  contains the course's content key and exactly one populated association field, that of
  \<open>K\<close>.
\<close>

theorem fan_out_object_identifier:
  assumes "obj \<in> set (project_course B course assoc)"
  shows "\<exists>K i. i < length (batched_objects B (course_uuid (json_metadata course))
                        (content_key course) K (uuids_of K assoc))
           \<and> obj = batched_objects B (course_uuid (json_metadata course))
                        (content_key course) K (uuids_of K assoc) ! i
           \<and> objectID obj = ''course-'' @ course_uuid (json_metadata course) @ ''-'' @ kind_name K
                              @ ''-uuids-'' @ string_of_nat i
           \<and> (course_uuid (json_metadata course) \<noteq> [] \<longrightarrow>
                 Some (objectID obj) =
                   map_option (\<lambda>base. base @ ''-'' @ kind_name K @ ''-uuids-'' @ string_of_nat i)
                     (get_algolia_object_id (Some (course_uuid (json_metadata course)))))
           \<and> key obj = content_key course
           \<and> populated_fields obj = 1
           \<and> association_field K obj \<noteq> None"
proof -
  let ?u = "course_uuid (json_metadata course)" and ?k = "content_key course"
  from assms obtain K where "obj \<in> set (batched_objects B ?u ?k K (uuids_of K assoc))"
    using fan_out_members unfolding project_course_def by blast
  then obtain i where i: "i < length (batched_objects B ?u ?k K (uuids_of K assoc))"
    and o: "obj = batched_objects B ?u ?k K (uuids_of K assoc) ! i"
    by (auto simp: in_set_conv_nth)
  from i have "i < length (chunks B (sort (uuids_of K assoc)))"
    by (simp add: batched_objects_length)
  then have b: "obj = batch_object ?u ?k K i (chunks B (sort (uuids_of K assoc)) ! i)"
    using o by (simp add: batched_objects_nth)
  have "objectID obj = ''course-'' @ ?u @ ''-'' @ kind_name K @ ''-uuids-'' @ string_of_nat i"
    by (simp add: b batch_object_fields fanout_object_id_def)
  moreover have "?u \<noteq> [] \<longrightarrow> Some (objectID obj) =
                   map_option (\<lambda>base. base @ ''-'' @ kind_name K @ ''-uuids-'' @ string_of_nat i)
                     (get_algolia_object_id (Some ?u))"
    by (simp add: b batch_object_fields fanout_object_id_def get_algolia_object_id_def)
  moreover have "key obj = ?k" "populated_fields obj = 1" "association_field K obj \<noteq> None"
    by (simp_all add: b batch_object_fields)
  ultimately show ?thesis using i o by blast
qed

theorem fan_out_object_identifier_witness:
  "batch_object ''course-uuid-1'' ''fakeX'' Customer 0 [''cust-1'']
     \<in> set (project_course 100 example_course_indexed example_associations)
   \<and> (\<exists>K i. objectID (batch_object ''course-uuid-1'' ''fakeX'' Customer 0 [''cust-1''])
              = ''course-'' @ ''course-uuid-1'' @ ''-'' @ kind_name K @ ''-uuids-'' @ string_of_nat i
            \<and> populated_fields (batch_object ''course-uuid-1'' ''fakeX'' Customer 0 [''cust-1'']) = 1)"
proof -
  have h: "batch_object ''course-uuid-1'' ''fakeX'' Customer 0 [''cust-1'']
     \<in> set (project_course 100 example_course_indexed example_associations)"
    by code_simp
  have u: "course_uuid (json_metadata example_course_indexed) = ''course-uuid-1''"
    by code_simp
  from fan_out_object_identifier [OF h] h show ?thesis
    unfolding u by blast
qed

text \<open>The identifiers of a course whose own uuid is \<open>course-uuid-1\<close> and whose advertised run
  has the uuid \<open>run-1\<close>.\<close>

theorem fan_out_identifier_not_advertised_run:
  "map objectID (project_course 100 example_course_indexed example_associations)
     = [''course-course-uuid-1-catalog-uuids-0'', ''course-course-uuid-1-customer-uuids-0'',
        ''course-course-uuid-1-catalog-query-uuids-0'']
   \<and> map_option (\<lambda>run. field run ''uuid'') (advertised_run (json_metadata example_course_indexed))
     = Some (JStr ''run-1'')
   \<and> objectID (hd (project_course 100 example_course_indexed example_associations))
     \<noteq> ''course-'' @ ''run-1'' @ ''-'' @ kind_name Catalog @ ''-uuids-'' @ string_of_nat 0"
  by code_simp

lemma index_loop_trace:
  "cache_checks (fst (index_loop B ttl assoc courses now ks st acc)) = cache_checks st @ ks
   \<and> replace_all_calls (fst (index_loop B ttl assoc courses now ks st acc)) = replace_all_calls st"
  by (induction ks arbitrary: st acc) (simp_all add: Let_def)

lemma recently_indexed_after_mark:
  "k' \<noteq> k \<Longrightarrow> was_recently_indexed (mark_recently_indexed c now ttl k) t k'
                 = was_recently_indexed c t k'"
  by (simp add: was_recently_indexed_def mark_recently_indexed_def update_conv')

lemma index_loop_cold:
  "distinct ks \<Longrightarrow> \<forall>k \<in> set ks. \<not> was_recently_indexed (cache st) now k \<Longrightarrow>
     snd (index_loop B ttl assoc courses now ks st acc)
       = acc @ concat (map (objects_for B assoc courses) ks)
   \<and> (\<forall>k \<in> set ks. map_of (cache (fst (index_loop B ttl assoc courses now ks st acc))) k
          = Some (now + ttl))
   \<and> (\<forall>k. k \<notin> set ks \<longrightarrow>
          map_of (cache (fst (index_loop B ttl assoc courses now ks st acc))) k = map_of (cache st) k)"
proof (induction ks arbitrary: st acc)
  case Nil
  show ?case by simp
next
  case (Cons k ks)
  let ?st = "st\<lparr>cache_checks := cache_checks st @ [k],
                  cache := mark_recently_indexed (cache st) now ttl k\<rparr>"
  let ?acc = "acc @ objects_for B assoc courses k"
  from Cons.prems have k: "\<not> was_recently_indexed (cache st) now k" and nk: "k \<notin> set ks"
    and d: "distinct ks"
    by simp_all
  have step: "index_loop B ttl assoc courses now (k # ks) st acc
                = index_loop B ttl assoc courses now ks ?st ?acc"
    using k by (simp add: Let_def)
  have cold: "\<forall>k' \<in> set ks. \<not> was_recently_indexed (cache ?st) now k'"
  proof
    fix k' assume m: "k' \<in> set ks"
    with nk have "k' \<noteq> k" by auto
    with m Cons.prems show "\<not> was_recently_indexed (cache ?st) now k'"
      by (simp add: recently_indexed_after_mark)
  qed
  note ih = Cons.IH [OF d cold, of ?acc]
  have marked: "map_of (cache ?st) k = Some (now + ttl)"
    by (simp add: mark_recently_indexed_def update_conv')
  have other: "\<And>k'. k' \<noteq> k \<Longrightarrow> map_of (cache ?st) k' = map_of (cache st) k'"
    by (simp add: mark_recently_indexed_def update_conv')
  from ih nk marked other show ?case
    unfolding step by auto
qed

lemma index_loop_warm:
  "\<forall>k \<in> set ks. was_recently_indexed (cache st) now k \<Longrightarrow>
     snd (index_loop B ttl assoc courses now ks st acc) = acc
   \<and> cache (fst (index_loop B ttl assoc courses now ks st acc)) = cache st"
  by (induction ks arbitrary: st acc) (simp_all add: Let_def)


text \<open>
  C5. Two cycles of the index synchronizer on the same courses, the second at a time before
  the entries marked by the first expire, starting from a cache that holds none of the
  indexable courses: the first cycle calls \<open>replace_all_objects\<close> once, with the objects of all
  indexable courses in order; the second calls it once, with the empty list; and in each
  cycle the cache is asked exactly once about each indexable course and about nothing else.
\<close>

theorem index_synchronizer_twice:
  assumes "partition_course_keys_for_indexing act courses = Inr (indexable, nonindexable)"
    and "\<forall>k \<in> set indexable. \<not> was_recently_indexed (cache st) now1 k"
    and "now1 \<le> now2" and "now2 < now1 + ttl"
  shows "\<exists>st1 st2.
           index_synchronizer act B ttl assoc courses now1 st = Inr st1
         \<and> index_synchronizer act B ttl assoc courses now2 st1 = Inr st2
         \<and> replace_all_calls st1 =
               replace_all_calls st @ [concat (map (objects_for B assoc courses) indexable)]
         \<and> replace_all_calls st2 = replace_all_calls st1 @ [[]]
         \<and> cache_checks st1 = cache_checks st @ indexable
         \<and> cache_checks st2 = cache_checks st1 @ indexable
         \<and> distinct indexable"
proof -
  let ?l1 = "index_loop B ttl assoc courses now1 indexable st []"
  define st1 where "st1 = (fst ?l1)\<lparr>replace_all_calls := replace_all_calls (fst ?l1) @ [snd ?l1]\<rparr>"
  let ?l2 = "index_loop B ttl assoc courses now2 indexable st1 []"
  define st2 where "st2 = (fst ?l2)\<lparr>replace_all_calls := replace_all_calls (fst ?l2) @ [snd ?l2]\<rparr>"
  have d: "distinct indexable"
    using assms(1) partition_loop_distinct [of act courses "[]" "[]" indexable nonindexable]
    by (simp add: partition_course_keys_for_indexing_def)
  have r1: "index_synchronizer act B ttl assoc courses now1 st = Inr st1"
    by (simp add: index_synchronizer_def assms(1) st1_def Let_def)
  have r2: "index_synchronizer act B ttl assoc courses now2 st1 = Inr st2"
    by (simp add: index_synchronizer_def assms(1) st2_def Let_def)
  note c1 = index_loop_cold [OF d assms(2), of B ttl assoc courses "[]"]
  have calls1: "replace_all_calls st1 =
               replace_all_calls st @ [concat (map (objects_for B assoc courses) indexable)]"
    using c1 index_loop_trace [of B ttl assoc courses now1 indexable st "[]"]
    by (simp add: st1_def)
  have checks1: "cache_checks st1 = cache_checks st @ indexable"
    using index_loop_trace [of B ttl assoc courses now1 indexable st "[]"]
    by (simp add: st1_def)
  have "\<forall>k \<in> set indexable. map_of (cache st1) k = Some (now1 + ttl)"
    using c1 by (simp add: st1_def)
  then have warm: "\<forall>k \<in> set indexable. was_recently_indexed (cache st1) now2 k"
    using assms(4) by (simp add: was_recently_indexed_def)
  have calls2: "replace_all_calls st2 = replace_all_calls st1 @ [[]]"
    using index_loop_warm [OF warm, of B ttl assoc courses "[]"]
      index_loop_trace [of B ttl assoc courses now2 indexable st1 "[]"]
    by (simp add: st2_def)
  have checks2: "cache_checks st2 = cache_checks st1 @ indexable"
    using index_loop_trace [of B ttl assoc courses now2 indexable st1 "[]"]
    by (simp add: st2_def)
  from r1 r2 calls1 calls2 checks1 checks2 d show ?thesis by blast
qed

theorem index_synchronizer_twice_witness:
  "partition_course_keys_for_indexing published_run_active
     [example_course_indexed, example_course_unpublished] = Inr ([''fakeX''], [''testX''])
   \<and> \<not> was_recently_indexed (cache empty_sync_state) 0 ''fakeX''
   \<and> (0::int) \<le> 60 \<and> (60::int) < 0 + 3600
   \<and> (\<exists>st1 st2.
         index_synchronizer published_run_active 100 3600 (\<lambda>k. example_associations)
           [example_course_indexed, example_course_unpublished] 0 empty_sync_state = Inr st1
       \<and> index_synchronizer published_run_active 100 3600 (\<lambda>k. example_associations)
           [example_course_indexed, example_course_unpublished] 60 st1 = Inr st2
       \<and> replace_all_calls st2 =
           [project_course 100 example_course_indexed example_associations, []]
       \<and> cache_checks st2 = [''fakeX'', ''fakeX''])"
proof -
  let ?cs = "[example_course_indexed, example_course_unpublished]"
  have p: "partition_course_keys_for_indexing published_run_active ?cs = Inr ([''fakeX''], [''testX''])"
    by code_simp
  have c: "\<forall>k \<in> set [''fakeX'']. \<not> was_recently_indexed (cache empty_sync_state) 0 k"
    by (simp add: empty_sync_state_def was_recently_indexed_def)
  have t: "(0::int) \<le> 60" "(60::int) < 0 + 3600"
    by simp_all
  have o: "concat (map (objects_for 100 (\<lambda>k. example_associations) ?cs) [''fakeX''])
             = project_course 100 example_course_indexed example_associations"
    by (simp add: objects_for_def example_course_indexed_def)
  have e: "replace_all_calls empty_sync_state = []" "cache_checks empty_sync_state = []"
    by (simp_all add: empty_sync_state_def)
  from index_synchronizer_twice [OF p c t, of 100 "\<lambda>k. example_associations"]
  obtain st1 st2 where
    "index_synchronizer published_run_active 100 3600 (\<lambda>k. example_associations) ?cs 0 empty_sync_state = Inr st1"
    "index_synchronizer published_run_active 100 3600 (\<lambda>k. example_associations) ?cs 60 st1 = Inr st2"
    "replace_all_calls st2 = [project_course 100 example_course_indexed example_associations, []]"
    "cache_checks st2 = [''fakeX'', ''fakeX'']"
    unfolding o e by auto
  moreover from c have "\<not> was_recently_indexed (cache empty_sync_state) 0 ''fakeX''"
    by simp
  ultimately show ?thesis using p t by blast
qed

lemma equivalent_records_blocks:
  "set (equivalent_records store name now window ident) =
     {r \<in> set store. blocks name now window ident r}"
  by (auto simp: equivalent_records_def recent_records_def blocks_def)

lemma semaphore_value:
  "expiring_task_semaphore store name now window ident work =
     (if \<exists>r \<in> set store. blocks name now window ident r
      then Inl (RecentlyRunError name (own_args ident) (own_kwargs ident))
      else Inr (work (own_args ident) (own_kwargs ident)))"
proof -
  have "(equivalent_records store name now window ident \<noteq> []) =
          (\<exists>r \<in> set store. blocks name now window ident r)"
    using equivalent_records_blocks [of store name now window ident]
    by (metis (mono_tags, lifting) empty_Collect_eq empty_iff mem_Collect_eq set_empty)
  then show ?thesis
    by (simp add: expiring_task_semaphore_def)
qed

lemma unready_not_ignored: "unready s \<Longrightarrow> \<not> ignored_status s"
  by (cases s) simp_all

text \<open>
  C1 (as amended). For every job name and recency window: invoking the wrapped task while the
  store holds a record with the same job name, a status other than FAILURE and REVOKED (any
  unready status, and SUCCESS as well), a creation time within the window, the invocation's
  serialized arguments and another execution id raises \<open>RecentlyRunError\<close> with the job name
  and the arguments. With that record alone in the store, changing any one of the four
  conditions (the status made FAILURE or REVOKED, a creation time before the window, other
  arguments, the invocation's own execution id) makes the wrapped work run and its result
  come back unchanged; so it does whenever no record of the store meets all conditions.
\<close>

theorem semaphore_blocks_recent_equivalent:
  "(r \<in> set store \<and> job_name r = name
      \<and> (unready (job_status r) \<or> job_status r = SUCCESS)
      \<and> now - window \<le> created_at r \<and> created_at r \<le> now
      \<and> positional_args r = own_args ident \<and> keyword_args r = own_kwargs ident
      \<and> execution_id r \<noteq> own_execution_id ident
     \<longrightarrow> expiring_task_semaphore store name now window ident work
           = Inl (RecentlyRunError name (own_args ident) (own_kwargs ident)))
   \<and> ((job_status r = FAILURE \<or> job_status r = REVOKED)
        \<or> created_at r < now - window
        \<or> (positional_args r \<noteq> own_args ident \<or> keyword_args r \<noteq> own_kwargs ident)
        \<or> execution_id r = own_execution_id ident
     \<longrightarrow> expiring_task_semaphore [r] name now window ident work
           = Inr (work (own_args ident) (own_kwargs ident)))
   \<and> ((\<forall>r' \<in> set store. \<not> blocks name now window ident r')
     \<longrightarrow> expiring_task_semaphore store name now window ident work
           = Inr (work (own_args ident) (own_kwargs ident)))"
proof (intro conjI impI)
  assume a: "r \<in> set store \<and> job_name r = name
      \<and> (unready (job_status r) \<or> job_status r = SUCCESS)
      \<and> now - window \<le> created_at r \<and> created_at r \<le> now
      \<and> positional_args r = own_args ident \<and> keyword_args r = own_kwargs ident
      \<and> execution_id r \<noteq> own_execution_id ident"
  then have "\<not> ignored_status (job_status r)"
    using unready_not_ignored by auto
  with a have "\<exists>r \<in> set store. blocks name now window ident r"
    by (auto simp: blocks_def)
  then show "expiring_task_semaphore store name now window ident work
           = Inl (RecentlyRunError name (own_args ident) (own_kwargs ident))"
    by (simp add: semaphore_value)
next
  assume "(job_status r = FAILURE \<or> job_status r = REVOKED)
        \<or> created_at r < now - window
        \<or> (positional_args r \<noteq> own_args ident \<or> keyword_args r \<noteq> own_kwargs ident)
        \<or> execution_id r = own_execution_id ident"
  then have "\<not> blocks name now window ident r"
    by (auto simp: blocks_def)
  then show "expiring_task_semaphore [r] name now window ident work
           = Inr (work (own_args ident) (own_kwargs ident))"
    by (simp add: semaphore_value)
next
  assume "\<forall>r' \<in> set store. \<not> blocks name now window ident r'"
  then show "expiring_task_semaphore store name now window ident work
           = Inr (work (own_args ident) (own_kwargs ident))"
    by (simp add: semaphore_value)
qed

theorem semaphore_blocks_recent_equivalent_witness:
  "expiring_task_semaphore [example_record\<lparr>job_status := PENDING\<rparr>] ''mock_task'' 1060 3600
        example_identity (\<lambda>a k. ''precious'')
     = Inl (RecentlyRunError ''mock_task'' ''[123, 77]'' ''{}'')
   \<and> expiring_task_semaphore [example_record\<lparr>job_status := FAILURE\<rparr>] ''mock_task'' 1060 3600
        example_identity (\<lambda>a k. ''precious'') = Inr ''precious''
   \<and> expiring_task_semaphore [example_record\<lparr>job_status := PENDING, created_at := - 14000\<rparr>]
        ''mock_task'' 1060 3600 example_identity (\<lambda>a k. ''precious'') = Inr ''precious''
   \<and> expiring_task_semaphore [example_record\<lparr>job_status := PENDING, keyword_args := ''{foo: bar}''\<rparr>]
        ''mock_task'' 1060 3600 example_identity (\<lambda>a k. ''precious'') = Inr ''precious''
   \<and> expiring_task_semaphore [example_record\<lparr>job_status := PENDING, execution_id := ''mine''\<rparr>]
        ''mock_task'' 1060 3600 example_identity (\<lambda>a k. ''precious'') = Inr ''precious''"
proof -
  let ?w = "\<lambda>(a::string) (k::string). ''precious''"
  note t = semaphore_blocks_recent_equivalent [where name = "''mock_task''" and now = 1060
      and window = 3600 and ident = example_identity and work = ?w]
  have 1: "expiring_task_semaphore [example_record\<lparr>job_status := PENDING\<rparr>] ''mock_task'' 1060 3600
        example_identity ?w = Inl (RecentlyRunError ''mock_task'' ''[123, 77]'' ''{}'')"
    using t [of "example_record\<lparr>job_status := PENDING\<rparr>" "[example_record\<lparr>job_status := PENDING\<rparr>]"]
    by (simp add: example_record_def example_identity_def)
  have 2: "expiring_task_semaphore [example_record\<lparr>job_status := FAILURE\<rparr>] ''mock_task'' 1060 3600
        example_identity ?w = Inr ''precious''"
    using t [of "example_record\<lparr>job_status := FAILURE\<rparr>" "[]"]
    by (simp add: example_record_def example_identity_def)
  have 3: "expiring_task_semaphore [example_record\<lparr>job_status := PENDING, created_at := - 14000\<rparr>]
        ''mock_task'' 1060 3600 example_identity ?w = Inr ''precious''"
    using t [of "example_record\<lparr>job_status := PENDING, created_at := - 14000\<rparr>" "[]"]
    by (simp add: example_record_def example_identity_def)
  have 4: "expiring_task_semaphore [example_record\<lparr>job_status := PENDING, keyword_args := ''{foo: bar}''\<rparr>]
        ''mock_task'' 1060 3600 example_identity ?w = Inr ''precious''"
    using t [of "example_record\<lparr>job_status := PENDING, keyword_args := ''{foo: bar}''\<rparr>" "[]"]
    by (simp add: example_record_def example_identity_def)
  have 5: "expiring_task_semaphore [example_record\<lparr>job_status := PENDING, execution_id := ''mine''\<rparr>]
        ''mock_task'' 1060 3600 example_identity ?w = Inr ''precious''"
    using t [of "example_record\<lparr>job_status := PENDING, execution_id := ''mine''\<rparr>" "[]"]
    by (simp add: example_record_def example_identity_def)
  from 1 2 3 4 5 show ?thesis by simp
qed

text \<open>The record of \<open>test_semaphore_raises_recent_run_error_for_same_args\<close>: its status is
  SUCCESS, a ready status, and the invocation is refused.\<close>

theorem semaphore_blocks_on_success:
  "expiring_task_semaphore [example_record] ''mock_task'' 1060 3600 example_identity
       (\<lambda>a k. ''precious'')
     = Inl (RecentlyRunError ''mock_task'' ''[123, 77]'' ''{}'')
   \<and> job_status example_record = SUCCESS
   \<and> \<not> unready (job_status example_record)"
  by (simp add: expiring_task_semaphore_def equivalent_records_def recent_records_def
      example_record_def example_identity_def)

end
